theory Spec2Isabelle
  imports Main
begin

section \<open>Python text primitives used by the agent\<close>

text \<open>
  Python strings are modelled as \<^typ>\<open>string\<close>, a character being read as the code
  point \<open>0..255\<close> it carries (text outside Latin-1 is outside the model). The character
  classes below are those of the interpreter on that range: \<open>str.isspace\<close> (also the
  class \<open>\s\<close> of \<open>re\<close>), the class \<open>\w\<close> of \<open>re\<close>, the decimal digits accepted by
  \<open>int()\<close>, and \<open>str.lower\<close>.
\<close>

definition ord_chr :: "char \<Rightarrow> nat" where
  "ord_chr c = of_char c"

definition isspace :: "char \<Rightarrow> bool" where
  "isspace c = (let n = ord_chr c in (9 \<le> n \<and> n \<le> 13) \<or> (28 \<le> n \<and> n \<le> 32) \<or> n = 133 \<or> n = 160)"

definition isword :: "char \<Rightarrow> bool" where
  "isword c = (let n = ord_chr c in
     (48 \<le> n \<and> n \<le> 57) \<or> (65 \<le> n \<and> n \<le> 90) \<or> n = 95 \<or> (97 \<le> n \<and> n \<le> 122) \<or>
     n = 170 \<or> n = 178 \<or> n = 179 \<or> n = 181 \<or> n = 185 \<or> n = 186 \<or> (188 \<le> n \<and> n \<le> 190) \<or>
     (192 \<le> n \<and> n \<le> 214) \<or> (216 \<le> n \<and> n \<le> 246) \<or> (248 \<le> n \<and> n \<le> 255))"

definition isdecimal :: "char \<Rightarrow> bool" where
  "isdecimal c = (let n = ord_chr c in 48 \<le> n \<and> n \<le> 57)"

definition lower_chr :: "char \<Rightarrow> char" where
  "lower_chr c = (let n = ord_chr c in
     if (65 \<le> n \<and> n \<le> 90) \<or> (192 \<le> n \<and> n \<le> 222 \<and> n \<noteq> 215) then char_of (n + 32) else c)"

definition py_lower :: "string \<Rightarrow> string" where
  "py_lower s = map lower_chr s"

text \<open>\<open>s.strip()\<close> and \<open>s.strip(chars)\<close>: the characters of a class are removed at both ends.\<close>

definition strip_by :: "(char \<Rightarrow> bool) \<Rightarrow> string \<Rightarrow> string" where
  "strip_by P s = rev (dropWhile P (rev (dropWhile P s)))"

definition py_strip :: "string \<Rightarrow> string" where
  "py_strip s = strip_by isspace s"

definition py_strip_chars :: "string \<Rightarrow> string \<Rightarrow> string" where
  "py_strip_chars chars s = strip_by (\<lambda>c. c \<in> set chars) s"

text \<open>\<open>s.split(sep)\<close> for a separator of one character: one more piece than separators.\<close>

fun py_split :: "char \<Rightarrow> string \<Rightarrow> string list" where
  "py_split sep [] = [[]]"
| "py_split sep (c # cs) =
     (if c = sep then [] # py_split sep cs
      else (let r = py_split sep cs in (c # hd r) # tl r))"

definition starts_with :: "string \<Rightarrow> string \<Rightarrow> bool" where
  "starts_with p s = (take (length p) s = p)"

text \<open>\<open>str(n)\<close> of an integer: decimal digits, a minus sign when negative.\<close>

definition digit_chr :: "nat \<Rightarrow> char" where
  "digit_chr d = char_of (48 + d)"

fun str_nat :: "nat \<Rightarrow> string" where
  "str_nat n = (if n < 10 then [digit_chr n] else str_nat (n div 10) @ [digit_chr (n mod 10)])"

definition py_str :: "int \<Rightarrow> string" where
  "py_str i = (if i < 0 then CHR ''-'' # str_nat (nat (- i)) else str_nat (nat i))"

text \<open>
  \<open>repr(s)\<close> of a string: double quotes when the text has a single quote and no double
  quote, single quotes otherwise; the quote in use and the backslash are escaped, tab,
  newline and carriage return are written \<open>\t\<close>, \<open>\n\<close>, \<open>\r\<close>, every other
  non-printable character as \<open>\xhh\<close>.
\<close>

definition hex_chr :: "nat \<Rightarrow> char" where
  "hex_chr d = (if d < 10 then char_of (48 + d) else char_of (87 + d))"

definition repr_chr :: "char \<Rightarrow> char \<Rightarrow> string" where
  "repr_chr q c = (let n = ord_chr c in
     if c = q \<or> n = 92 then [CHR 0x5C, c]
     else if n = 9 then [CHR 0x5C, CHR ''t'']
     else if n = 10 then [CHR 0x5C, CHR ''n'']
     else if n = 13 then [CHR 0x5C, CHR ''r'']
     else if n < 32 \<or> (127 \<le> n \<and> n \<le> 160) \<or> n = 173
       then [CHR 0x5C, CHR ''x'', hex_chr (n div 16), hex_chr (n mod 16)]
     else [c])"

definition py_repr :: "string \<Rightarrow> string" where
  "py_repr s = (let q = (if CHR 0x27 \<in> set s \<and> CHR 0x22 \<notin> set s then CHR 0x22 else CHR 0x27)
     in q # concat (map (repr_chr q) s) @ [q])"

section \<open>Exceptions and values\<close>

text \<open>
  Every exception the modelled code can meet is a value; \<open>str(e)\<close> is its text.
  \<open>Exception\<close> stands for whatever an external collaborator (browser, model client)
  raises.
\<close>

datatype exn =
    ActionParseError string
  | ValueError string
  | KeyError string
  | Exception string

fun str_exn :: "exn \<Rightarrow> string" where
  "str_exn (ActionParseError m) = m"
| "str_exn (ValueError m) = m"
| "str_exn (KeyError k) = py_repr k"
| "str_exn (Exception m) = m"

text \<open>The values stored in \<open>Action.args\<close>: integers and strings.\<close>

datatype pyval = IntV int | StrV string

fun str_val :: "pyval \<Rightarrow> string" where
  "str_val (IntV i) = py_str i"
| "str_val (StrV s) = s"

text \<open>
  \<open>int(s)\<close> in base 10, as the interpreter reads it: surrounding whitespace is skipped,
  one sign is allowed, then digits, single underscores allowed between digits only. A
  literal of more than 4300 digits is refused (the interpreter's default limit), and so is
  anything left after the digits. Every failure is a \<open>ValueError\<close>.
\<close>

definition invalid_literal :: "string \<Rightarrow> exn" where
  "invalid_literal s = ValueError (''invalid literal for int() with base 10: '' @ py_repr s)"

definition exceeds_limit :: "nat \<Rightarrow> exn" where
  "exceeds_limit n = ValueError (''Exceeds the limit (4300 digits) for integer string conversion: value has ''
     @ str_nat n @ '' digits; use sys.set_int_max_str_digits() to increase the limit'')"

fun double_underscore :: "string \<Rightarrow> bool" where
  "double_underscore (a # b # cs) = ((a = CHR ''_'' \<and> b = CHR ''_'') \<or> double_underscore (b # cs))"
| "double_underscore _ = False"

definition digits_value :: "string \<Rightarrow> int" where
  "digits_value ds = foldl (\<lambda>a c. 10 * a + int (ord_chr c - 48)) 0 ds"

definition py_int :: "string \<Rightarrow> exn + int" where
  "py_int s =
     (let t = py_strip s;
          neg = starts_with ''-'' t;
          r = (if starts_with ''-'' t \<or> starts_with ''+'' t then tl t else t);
          run = takeWhile (\<lambda>c. isdecimal c \<or> c = CHR ''_'') r;
          rest = dropWhile (\<lambda>c. isdecimal c \<or> c = CHR ''_'') r;
          ds = filter isdecimal run
      in if starts_with ''_'' r \<or> double_underscore run \<or> (run \<noteq> [] \<and> last run = CHR ''_'')
           then Inl (invalid_literal s)
         else if length ds > 4300 then Inl (exceeds_limit (length ds))
         else if ds = [] \<or> rest \<noteq> [] then Inl (invalid_literal s)
         else Inr (if neg then - digits_value ds else digits_value ds))"

section \<open>Regular-expression searches\<close>

text \<open>
  \<open>re.search\<close> tries the pattern at every position from the left and returns the first
  match. The patterns of the agent need no backtracking: \<open>\s*\<close>, \<open>\w+\<close> and \<open>[^)]*\<close> are
  greedy, and what follows each of them (\<open>\w\<close>, \<open>\(\<close>, \<open>\)\<close>) cannot match a character
  that the class itself accepts, so giving characters back never turns a failure into a
  match.
\<close>

fun re_search :: "(string \<Rightarrow> 'a option) \<Rightarrow> string \<Rightarrow> 'a option" where
  "re_search m [] = m []"
| "re_search m (c # cs) = (case m (c # cs) of Some r \<Rightarrow> Some r | None \<Rightarrow> re_search m cs)"

text \<open>\<open>Action:\s*(\w+)\(([^)]*)\)\<close> anchored at the head of the text: groups 1 and 2.\<close>

definition action_match_at :: "string \<Rightarrow> (string \<times> string) option" where
  "action_match_at s =
     (if starts_with ''Action:'' s then
        (let r1 = dropWhile isspace (drop 7 s);
             g1 = takeWhile isword r1;
             r2 = dropWhile isword r1
         in if g1 \<noteq> [] \<and> starts_with ''('' r2 then
              (let g2 = takeWhile (\<lambda>c. c \<noteq> CHR '')'') (tl r2);
                   r3 = dropWhile (\<lambda>c. c \<noteq> CHR '')'') (tl r2)
               in if r3 \<noteq> [] then Some (g1, g2) else None)
            else None)
      else None)"

text \<open>\<open>Action:\s*(\w+)\<close> anchored at the head of the text: group 1.\<close>

definition action_line_at :: "string \<Rightarrow> string option" where
  "action_line_at s =
     (if starts_with ''Action:'' s then
        (let g1 = takeWhile isword (dropWhile isspace (drop 7 s))
         in if g1 \<noteq> [] then Some g1 else None)
      else None)"

section \<open>Actions and the parser\<close>

record action =
  name :: string
  args :: "(string \<times> pyval) list"
  error :: "string option"

text \<open>\<open>Action(name=n)\<close>: the defaults are an empty argument dictionary and no error.\<close>

definition Action :: "string \<Rightarrow> action" where
  "Action n = \<lparr>name = n, args = [], error = None\<rparr>"

text \<open>
  The body of the \<open>try\<close> block of \<open>parse_action\<close>, on the action name and the stripped
  argument text. A \<open>ValueError\<close> of \<open>int()\<close> leaves the block as it is raised.
\<close>

definition parse_args :: "string \<Rightarrow> string \<Rightarrow> exn + action" where
  "parse_args nm args_str =
     (if nm = ''Click'' then
        (if args_str = [] then Inl (ActionParseError ''Click requires coordinates: Click(x, y)'')
         else
           (let parts = map py_strip (py_split (CHR '','') args_str) in
            if length parts \<noteq> 2 then
              Inl (ActionParseError (''Click requires exactly 2 arguments (x, y), got '' @ str_nat (length parts)))
            else
              (case py_int (parts ! 0) of Inl e \<Rightarrow> Inl e | Inr x \<Rightarrow>
              (case py_int (parts ! 1) of Inl e \<Rightarrow> Inl e | Inr y \<Rightarrow>
                 if \<not> (0 \<le> x \<and> x \<le> 1000 \<and> 0 \<le> y \<and> y \<le> 1000) then
                   Inl (ActionParseError (''Coordinates must be 0-1000, got ('' @ py_str x @ '', '' @ py_str y @ '')''))
                 else Inr \<lparr>name = ''Click'', args = [(''x'', IntV x), (''y'', IntV y)], error = None\<rparr>))))
      else if nm = ''Scroll'' then
        (if args_str = [] then Inl (ActionParseError ''Scroll requires arguments: Scroll(x, y, direction)'')
         else
           (let parts = map py_strip (py_split (CHR '','') args_str) in
            if length parts \<noteq> 3 then
              Inl (ActionParseError (''Scroll requires 3 arguments (x, y, direction), got '' @ str_nat (length parts)))
            else
              (case py_int (parts ! 0) of Inl e \<Rightarrow> Inl e | Inr x \<Rightarrow>
              (case py_int (parts ! 1) of Inl e \<Rightarrow> Inl e | Inr y \<Rightarrow>
                 (let direction = py_lower (py_strip_chars [CHR 0x27, CHR 0x22] (parts ! 2)) in
                  if direction \<noteq> ''up'' \<and> direction \<noteq> ''down'' then
                    Inl (ActionParseError (''Scroll direction must be 'up' or 'down', got '' @ [CHR 0x27] @ direction @ [CHR 0x27]))
                  else Inr \<lparr>name = ''Scroll'',
                             args = [(''x'', IntV x), (''y'', IntV y), (''direction'', StrV direction)],
                             error = None\<rparr>)))))
      else if nm = ''Type'' then
        (if args_str = [] then Inl (ActionParseError ''Type requires content: Type(text to type)'')
         else Inr \<lparr>name = ''Type'', args = [(''content'', StrV args_str)], error = None\<rparr>)
      else if nm = ''Press'' then
        (if args_str = [] then Inl (ActionParseError ''Press requires a key: Press(Enter)'')
         else Inr \<lparr>name = ''Press'', args = [(''key'', StrV args_str)], error = None\<rparr>)
      else if nm = ''CallUser'' then
        (if args_str = [] then
           Inl (ActionParseError ''CallUser requires a question: CallUser(your question here)'')
         else Inr \<lparr>name = ''CallUser'', args = [(''question'', StrV args_str)], error = None\<rparr>)
      else if nm = ''Wait'' \<or> nm = ''Finished'' then Inr (Action nm)
      else Inl (ActionParseError (''Unknown action: '' @ nm)))"

text \<open>
  \<open>parse_action\<close>: the parenthesised call is searched first; the bare name is searched
  only when there is none. \<open>Inl\<close> is the exception raised.
\<close>

definition parse_action :: "string \<Rightarrow> exn + action" where
  "parse_action response =
     (case re_search action_match_at response of
        None \<Rightarrow>
          (case re_search action_line_at response of
             Some nm \<Rightarrow>
               if nm = ''Wait'' \<or> nm = ''Finished'' then Inr (Action nm)
               else Inl (ActionParseError (''Action '' @ [CHR 0x27] @ nm @ [CHR 0x27]
                           @ '' requires arguments but none provided''))
           | None \<Rightarrow>
               Inl (ActionParseError
                 ''No valid action found in response. Expected format: Action: Name(args)''))
      | Some (g1, g2) \<Rightarrow>
          (case parse_args g1 (py_strip g2) of
             Inl (ValueError m) \<Rightarrow> Inl (ActionParseError (''Invalid argument format: '' @ m))
           | r \<Rightarrow> r))"

section \<open>Conversation and image trimming\<close>

text \<open>
  A message is a dictionary with a role and a content; the content is either a text or a
  list of typed items. An item carries what \<open>item.get("type")\<close> returns and its payload
  (the text of a text item, the URL of an image item).
\<close>

datatype item = Item (item_type: "string option") (item_data: string)

datatype content = Text string | Parts "item list"

record message =
  role :: string
  content :: content

record browser_state =
  screenshot_b64 :: string
  url :: string

text \<open>\<open>if task:\<close> and \<open>if error:\<close>: \<open>None\<close> and the empty text are false.\<close>

fun truthy :: "string option \<Rightarrow> bool" where
  "truthy None = False"
| "truthy (Some s) = (s \<noteq> [])"

definition build_message :: "browser_state \<Rightarrow> string option \<Rightarrow> message" where
  "build_message st task =
     \<lparr>role = ''user'',
      content = Parts
        ((if truthy task then [Item (Some ''text'') (''Task: '' @ the task)] else [])
         @ [Item (Some ''text'') (''Current URL: '' @ url st),
            Item (Some ''image_url'') (''data:image/png;base64,'' @ screenshot_b64 st)])\<rparr>"

text \<open>
  The test of the first loop of \<open>trim_images\<close>: a user message whose content is a list
  with an item of type \<open>image_url\<close>.
\<close>

definition is_image_item :: "item \<Rightarrow> bool" where
  "is_image_item it = (item_type it = Some ''image_url'')"

definition has_image :: "message \<Rightarrow> bool" where
  "has_image msg =
     (role msg = ''user'' \<and>
      (case content msg of Parts items \<Rightarrow> list_ex is_image_item items | Text _ \<Rightarrow> False))"

text \<open>The first loop, over \<open>enumerate(conversation)\<close> from index \<open>i\<close>.\<close>

fun image_indices_from :: "nat \<Rightarrow> message list \<Rightarrow> nat list" where
  "image_indices_from i [] = []"
| "image_indices_from i (msg # rest) =
     (if has_image msg then i # image_indices_from (Suc i) rest
      else image_indices_from (Suc i) rest)"

text \<open>
  The slice \<open>xs[:e]\<close>: a negative end counts from the end of the list, and an end of
  zero, which is what \<open>-max_images\<close> is for \<open>max_images = 0\<close>, gives the empty list.
\<close>

definition slice_to :: "'a list \<Rightarrow> int \<Rightarrow> 'a list" where
  "slice_to xs e = (if e < 0 then take (nat (int (length xs) + e)) xs else take (nat e) xs)"

text \<open>
  What the second loop appends for a message selected for removal: a user message with a
  list content is rebuilt without its image items and appended when an item is left.
\<close>

definition strip_images :: "message \<Rightarrow> message list" where
  "strip_images msg =
     (case content msg of
        Parts items \<Rightarrow>
          if role msg = ''user'' then
            (let new_content = filter (\<lambda>it. item_type it \<noteq> Some ''image_url'') items in
             if new_content \<noteq> [] then [\<lparr>role = ''user'', content = Parts new_content\<rparr>] else [])
          else []
      | Text _ \<Rightarrow> [])"

text \<open>The second loop, over \<open>enumerate(conversation)\<close> from index \<open>i\<close>.\<close>

fun trim_loop :: "nat set \<Rightarrow> nat \<Rightarrow> message list \<Rightarrow> message list" where
  "trim_loop indices_to_remove i [] = []"
| "trim_loop indices_to_remove i (msg # rest) =
     (if i \<in> indices_to_remove then strip_images msg @ trim_loop indices_to_remove (Suc i) rest
      else msg # trim_loop indices_to_remove (Suc i) rest)"

definition trim_images :: "message list \<Rightarrow> int \<Rightarrow> message list" where
  "trim_images conversation max_images =
     (let image_indices = image_indices_from 0 conversation in
      if int (length image_indices) \<le> max_images then conversation
      else trim_loop (set (slice_to image_indices (- max_images))) 0 conversation)"

section \<open>Executing an action\<close>

text \<open>
  The browser controller drives an external browser; it is a parameter of the model: a
  record of operations on a world \<open>'w\<close>, each returning the new world and either its
  result or the exception it raised.
\<close>

record 'w browser =
  start :: "string \<Rightarrow> 'w \<Rightarrow> (exn + browser_state) \<times> 'w"
  get_state :: "'w \<Rightarrow> (exn + browser_state) \<times> 'w"
  click :: "pyval \<Rightarrow> pyval \<Rightarrow> 'w \<Rightarrow> (exn + unit) \<times> 'w"
  scroll :: "pyval \<Rightarrow> pyval \<Rightarrow> pyval \<Rightarrow> 'w \<Rightarrow> (exn + unit) \<times> 'w"
  type_text :: "pyval \<Rightarrow> 'w \<Rightarrow> (exn + unit) \<times> 'w"
  press_key :: "pyval \<Rightarrow> 'w \<Rightarrow> (exn + unit) \<times> 'w"
  wait :: "int \<Rightarrow> 'w \<Rightarrow> (exn + unit) \<times> 'w"
  close :: "'w \<Rightarrow> (exn + unit) \<times> 'w"

text \<open>\<open>action.args[k]\<close> raises \<open>KeyError\<close> on a missing key.\<close>

definition arg :: "action \<Rightarrow> string \<Rightarrow> exn + pyval" where
  "arg a k = (case map_of (args a) k of None \<Rightarrow> Inl (KeyError k) | Some v \<Rightarrow> Inr v)"

text \<open>The \<open>try\<close> block of \<open>execute_action\<close>: arguments are looked up left to right.\<close>

definition dispatch :: "action \<Rightarrow> 'w browser \<Rightarrow> 'w \<Rightarrow> (exn + unit) \<times> 'w" where
  "dispatch a b w =
     (if name a = ''Click'' then
        (case arg a ''x'' of Inl e \<Rightarrow> (Inl e, w) | Inr x \<Rightarrow>
        (case arg a ''y'' of Inl e \<Rightarrow> (Inl e, w) | Inr y \<Rightarrow> click b x y w))
      else if name a = ''Scroll'' then
        (case arg a ''x'' of Inl e \<Rightarrow> (Inl e, w) | Inr x \<Rightarrow>
        (case arg a ''y'' of Inl e \<Rightarrow> (Inl e, w) | Inr y \<Rightarrow>
        (case arg a ''direction'' of Inl e \<Rightarrow> (Inl e, w) | Inr d \<Rightarrow> scroll b x y d w)))
      else if name a = ''Type'' then
        (case arg a ''content'' of Inl e \<Rightarrow> (Inl e, w) | Inr c \<Rightarrow> type_text b c w)
      else if name a = ''Press'' then
        (case arg a ''key'' of Inl e \<Rightarrow> (Inl e, w) | Inr k \<Rightarrow> press_key b k w)
      else if name a = ''Wait'' then wait b 1000 w
      else (Inr (), w))"

definition execute_action :: "action \<Rightarrow> 'w browser \<Rightarrow> 'w \<Rightarrow> string option \<times> 'w" where
  "execute_action a b w =
     (case dispatch a b w of
        (Inr _, w') \<Rightarrow> (None, w')
      | (Inl e, w') \<Rightarrow> (Some (''Action execution failed: '' @ str_exn e), w'))"

section \<open>The agent loop\<close>

definition SYSTEM_PROMPT :: string where
  \<open>SYSTEM_PROMPT =
     ''You are a web navigation agent. You control a browser to accomplish user tasks.\<newline>'' @
     ''\<newline>'' @
     ''## Input\<newline>'' @
     ''Each turn you receive:\<newline>'' @
     ''- A screenshot of the current webpage\<newline>'' @
     ''- The current URL\<newline>'' @
     ''\<newline>'' @
     ''## Output Format\<newline>'' @
     ''Think step by step, then output your action:\<newline>'' @
     ''\<newline>'' @
     ''<reasoning>\<newline>'' @
     ''[Your thinking about what to do next]\<newline>'' @
     ''</reasoning>\<newline>'' @
     ''Action: ActionName(arguments)\<newline>'' @
     ''\<newline>'' @
     ''## Available Actions\<newline>'' @
     ''- Click(x, y) - Click at coordinates\<newline>'' @
     ''- Scroll(x, y, direction) - Scroll at position, direction is "up" or "down"\<newline>'' @
     ''- Type(text) - Type text (click input field first)\<newline>'' @
     ''- Press(key) - Press key: Enter, Tab, Escape, Backspace, etc.\<newline>'' @
     ''- Wait() - Wait for page to load\<newline>'' @
     ''- Finished() - Task complete\<newline>'' @
     ''- CallUser(question) - Ask user for help\<newline>'' @
     ''\<newline>'' @
     ''## Coordinate System\<newline>'' @
     ''Coordinates are 0-1000 for both x and y:\<newline>'' @
     ''- (0, 0) = top-left\<newline>'' @
     ''- (1000, 1000) = bottom-right\<newline>'' @
     ''- (500, 500) = center\<newline>'' @
     ''\<newline>'' @
     ''## Examples\<newline>'' @
     ''<reasoning>\<newline>'' @
     ''I see Google's homepage. I need to click the search box to type my query.\<newline>'' @
     ''</reasoning>\<newline>'' @
     ''Action: Click(500, 400)\<newline>'' @
     ''\<newline>'' @
     ''<reasoning>\<newline>'' @
     ''The search box is focused. I'll type my search query.\<newline>'' @
     ''</reasoning>\<newline>'' @
     ''Action: Type(flights to Paris)\<newline>'' @
     ''\<newline>'' @
     ''<reasoning>\<newline>'' @
     ''Query typed. I'll press Enter to search.\<newline>'' @
     ''</reasoning>\<newline>'' @
     ''Action: Press(Enter)\<newline>'' @
     ''\<newline>'' @
     ''<reasoning>\<newline>'' @
     ''I need login credentials. I'll ask the user.\<newline>'' @
     ''</reasoning>\<newline>'' @
     ''Action: CallUser(What are the login credentials?)''\<close>

record step =
  state :: browser_state
  response :: string
  action :: action

record 'w web_nav_agent =
  llm_fn :: "message list \<Rightarrow> 'w \<Rightarrow> (exn + string) \<times> 'w"
  max_images :: int
  max_steps :: int
  headless :: bool
  start_url :: string
  user_input_fn :: "string \<Rightarrow> 'w \<Rightarrow> (exn + string) \<times> 'w"

datatype flow = Continue | Break

text \<open>
  One iteration of the \<open>for\<close> loop of \<open>run\<close>, on the loop's variables \<open>steps\<close>,
  \<open>conversation\<close> and \<open>state\<close>. An exception other than \<open>ActionParseError\<close> from
  the parser, and any exception of the model client, the human channel or the browser
  outside \<open>execute_action\<close>, leaves the loop. The recorded step holds the very action
  object that \<open>action.error = error\<close> later writes to, so that assignment shows in the
  step already appended: the step is written here with the updated action.
\<close>

definition turn ::
  "'w web_nav_agent \<Rightarrow> 'w browser \<Rightarrow> step list \<times> message list \<times> browser_state \<Rightarrow> 'w
     \<Rightarrow> (exn + flow \<times> step list \<times> message list \<times> browser_state) \<times> 'w" where
  "turn self b vars w =
     (case vars of (steps, conversation, st) \<Rightarrow>
      (let trimmed_conv = trim_images conversation (max_images self) in
       case llm_fn self trimmed_conv w of
         (Inl e, w1) \<Rightarrow> (Inl e, w1)
       | (Inr resp, w1) \<Rightarrow>
         (let conversation1 = conversation @ [\<lparr>role = ''assistant'', content = Text resp\<rparr>] in
          case (case parse_action resp of
                  Inr a \<Rightarrow> Inr a
                | Inl (ActionParseError m) \<Rightarrow> Inr \<lparr>name = ''Error'', args = [], error = Some m\<rparr>
                | Inl e \<Rightarrow> Inl e) of
            Inl e \<Rightarrow> (Inl e, w1)
          | Inr act \<Rightarrow>
            (let steps1 = steps @ [\<lparr>state = st, response = resp, action = act\<rparr>] in
             if truthy (error act) then
               (Inr (Continue, steps1,
                     conversation1 @ [\<lparr>role = ''user'', content = Text (''Error: '' @ the (error act)
                        @ ''\<newline>Please try again with a valid action.'')\<rparr>], st), w1)
             else if name act = ''Finished'' then (Inr (Break, steps1, conversation1, st), w1)
             else if name act = ''CallUser'' then
               (let question = (case map_of (args act) ''question'' of
                                  Some q \<Rightarrow> str_val q | None \<Rightarrow> ''Agent needs assistance'') in
                case user_input_fn self (''Agent asks: '' @ question @ ''\<newline>Your response: '') w1 of
                  (Inl e, w2) \<Rightarrow> (Inl e, w2)
                | (Inr user_response, w2) \<Rightarrow>
                    (Inr (Continue, steps1,
                          conversation1 @ [\<lparr>role = ''user'',
                             content = Text (''User response: '' @ user_response)\<rparr>], st), w2))
             else
               (case execute_action act b w1 of (err, w2) \<Rightarrow>
                if truthy err then
                  (Inr (Continue,
                        steps @ [\<lparr>state = st, response = resp, action = act\<lparr>error := err\<rparr>\<rparr>],
                        conversation1 @ [\<lparr>role = ''user'', content = Text (''Error: '' @ the err
                           @ ''\<newline>Please try a different action.'')\<rparr>], st), w2)
                else
                  (case wait b 3000 w2 of
                     (Inl e, w3) \<Rightarrow> (Inl e, w3)
                   | (Inr _, w3) \<Rightarrow>
                     (case get_state b w3 of
                        (Inl e, w4) \<Rightarrow> (Inl e, w4)
                      | (Inr st', w4) \<Rightarrow>
                          (Inr (Continue, steps1, conversation1 @ [build_message st' None], st'), w4))))))))"

text \<open>\<open>for _ in range(n)\<close>: at most \<open>n\<close> iterations, fewer on \<open>break\<close> or an exception.\<close>

fun loop ::
  "'w web_nav_agent \<Rightarrow> 'w browser \<Rightarrow> nat \<Rightarrow> step list \<times> message list \<times> browser_state \<Rightarrow> 'w
     \<Rightarrow> (exn + step list \<times> message list \<times> browser_state) \<times> 'w" where
  "loop self b 0 vars w = (Inr vars, w)"
| "loop self b (Suc n) vars w =
     (case turn self b vars w of
        (Inl e, w') \<Rightarrow> (Inl e, w')
      | (Inr (Break, vars'), w') \<Rightarrow> (Inr vars', w')
      | (Inr (Continue, vars'), w') \<Rightarrow> loop self b n vars' w')"

text \<open>
  \<open>WebNavAgent.run\<close>. \<open>Browser\<close> is the controller's constructor, from the \<open>headless\<close>
  flag. The \<open>with\<close> block closes the browser on every way out; an exception of \<open>close\<close>
  replaces whatever the block produced.
\<close>

definition run ::
  "'w web_nav_agent \<Rightarrow> (bool \<Rightarrow> 'w browser) \<Rightarrow> string \<Rightarrow> 'w \<Rightarrow> (exn + step list) \<times> 'w" where
  "run self Browser task w =
     (let b = Browser (headless self);
          body =
            (case start b (start_url self) w of
               (Inl e, w0) \<Rightarrow> (Inl e, w0)
             | (Inr st, w0) \<Rightarrow>
               (let conversation = [\<lparr>role = ''system'', content = Text SYSTEM_PROMPT\<rparr>,
                                    build_message st (Some task)] in
                case loop self b (nat (max_steps self)) ([], conversation, st) w0 of
                  (Inl e, w1) \<Rightarrow> (Inl e, w1)
                | (Inr (steps, _, _), w1) \<Rightarrow> (Inr steps, w1)))
      in case close b (snd body) of
           (Inl e, w2) \<Rightarrow> (Inl e, w2)
         | (Inr _, w2) \<Rightarrow> (fst body, w2))"

section \<open>The run recorder\<close>

text \<open>
  \<open>(.*?)\<close> followed by a literal, under \<open>re.DOTALL\<close>: the shortest text after which the
  literal matches.
\<close>

fun lazy_until :: "string \<Rightarrow> string \<Rightarrow> string option" where
  "lazy_until lit [] = (if starts_with lit [] then Some [] else None)"
| "lazy_until lit (c # cs) =
     (if starts_with lit (c # cs) then Some [] else map_option ((#) c) (lazy_until lit cs))"

text \<open>\<open><reasoning>(.*?)</reasoning>\<close> anchored at the head of the text: group 1.\<close>

definition reasoning_match_at :: "string \<Rightarrow> string option" where
  "reasoning_match_at s =
     (if starts_with ''<reasoning>'' s then lazy_until ''</reasoning>'' (drop 11 s) else None)"

definition reasoning :: "string \<Rightarrow> string" where
  "reasoning resp =
     (case re_search reasoning_match_at resp of Some g1 \<Rightarrow> py_strip g1 | None \<Rightarrow> [])"





section \<open>A sample conversation\<close>

text \<open>
  The transcript that \<open>run\<close> has built after two successful actions: the system prompt,
  the first user turn with the task, and two more screenshots, each after a reply.
\<close>

definition sample_state :: "string \<Rightarrow> browser_state" where
  "sample_state u = \<lparr>screenshot_b64 = ''xxx'', url = u\<rparr>"

definition sample_conversation :: "message list" where
  "sample_conversation =
     [\<lparr>role = ''system'', content = Text SYSTEM_PROMPT\<rparr>,
      build_message (sample_state ''page1'') (Some ''Book a flight''),
      \<lparr>role = ''assistant'', content = Text ''Action: Click(500, 400)''\<rparr>,
      build_message (sample_state ''page2'') None,
      \<lparr>role = ''assistant'', content = Text ''Action: Wait()''\<rparr>,
      build_message (sample_state ''page3'') None]"


lemmas sample_defs = sample_conversation_def sample_state_def build_message_def

section \<open>A run that meets a parse failure and a failing click\<close>





section \<open>Image trimming: what the two loops compute\<close>

lemma nth_shift: "Suc i \<le> j \<Longrightarrow> (x # xs) ! (j - i) = xs ! (j - Suc i)"
proof -
  assume "Suc i \<le> j"
  then have "j - i = Suc (j - Suc i)" by arith
  then show ?thesis by simp
qed

lemma image_indices_from_filter:
  "image_indices_from i c = filter (\<lambda>j. has_image (c ! (j - i))) [i..<i + length c]"
proof (induction c arbitrary: i)
  case Nil
  show ?case by simp
next
  case (Cons msg rest)
  let ?p = "\<lambda>j. has_image ((msg # rest) ! (j - i))"
  let ?q = "\<lambda>j. has_image (rest ! (j - Suc i))"
  let ?js = "[Suc i..<Suc (i + length rest)]"
  have upt: "[i..<i + length (msg # rest)] = i # ?js"
    by (simp add: upt_rec)
  have tl: "filter ?p ?js = filter ?q ?js"
  proof (rule filter_cong [OF refl])
    fix j assume "j \<in> set ?js"
    then have "Suc i \<le> j" by (simp only: set_upt atLeastLessThan_iff)
    then show "?p j = ?q j" by (simp only: nth_shift)
  qed
  have "image_indices_from i (msg # rest)
      = (if has_image msg then [i] else []) @ image_indices_from (Suc i) rest" by simp
  also have "image_indices_from (Suc i) rest = filter ?q ?js"
    using Cons.IH [of "Suc i"] by (simp only: add_Suc)
  also have "(if has_image msg then [i] else []) @ filter ?q ?js = filter ?p (i # ?js)"
    by (simp add: tl del: upt_Suc)
  finally show ?case by (simp only: upt)
qed

lemma trim_loop_concat:
  "trim_loop R i c =
     concat (map (\<lambda>j. if j \<in> R then strip_images (c ! (j - i)) else [c ! (j - i)]) [i..<i + length c])"
proof (induction c arbitrary: i)
  case Nil
  show ?case by simp
next
  case (Cons msg rest)
  let ?g = "\<lambda>j. if j \<in> R then strip_images ((msg # rest) ! (j - i)) else [(msg # rest) ! (j - i)]"
  let ?h = "\<lambda>j. if j \<in> R then strip_images (rest ! (j - Suc i)) else [rest ! (j - Suc i)]"
  let ?js = "[Suc i..<Suc (i + length rest)]"
  have upt: "[i..<i + length (msg # rest)] = i # ?js"
    by (simp add: upt_rec)
  have tl: "map ?g ?js = map ?h ?js"
  proof (rule map_cong [OF refl])
    fix j assume "j \<in> set ?js"
    then have "Suc i \<le> j" by (simp only: set_upt atLeastLessThan_iff)
    then show "?g j = ?h j" by (simp only: nth_shift)
  qed
  have "trim_loop R i (msg # rest) = ?g i @ trim_loop R (Suc i) rest" by simp
  also have "trim_loop R (Suc i) rest = concat (map ?h ?js)"
    using Cons.IH [of "Suc i"] by (simp only: add_Suc)
  also have "?g i @ concat (map ?h ?js) = concat (map ?g (i # ?js))"
    by (simp only: tl list.map concat.simps)
  finally show ?case by (simp only: upt)
qed

lemma take_filter_upt:
  "\<exists>b\<le>n. take m (filter P [0..<n]) = filter P [0..<b]"
proof (induction n)
  case 0
  show ?case by simp
next
  case (Suc n)
  then obtain b where b: "b \<le> n" "take m (filter P [0..<n]) = filter P [0..<b]" by blast
  show ?case
  proof (cases "m \<le> length (filter P [0..<n])")
    case True
    then have "take m (filter P [0..<Suc n]) = filter P [0..<b]" using b by simp
    with b(1) show ?thesis by (metis le_SucI)
  next
    case False
    then have "Suc 0 \<le> m - length (filter P [0..<n])" by arith
    with False have "take m (filter P [0..<Suc n]) = filter P [0..<Suc n]" by simp
    then show ?thesis by blast
  qed
qed

lemma strip_images_no_image: "m \<in> set (strip_images msg) \<Longrightarrow> \<not> has_image m"
  by (auto simp: strip_images_def has_image_def is_image_item_def list_ex_iff Let_def
           split: content.splits if_splits)

lemma length_image_indices_from:
  "length (image_indices_from i c) = length (filter has_image c)"
  by (induction c arbitrary: i) simp_all

lemma distinct_image_indices_from: "distinct (image_indices_from i c)"
  by (simp add: image_indices_from_filter)

lemma trim_loop_empty: "trim_loop {} i c = c"
  by (induction c arbitrary: i) simp_all

lemma filter_has_image_strip: "filter has_image (strip_images msg) = []"
  by (simp add: filter_empty_conv strip_images_no_image)

lemma count_trim_loop:
  "length (filter has_image (trim_loop R i c))
     = length (filter (\<lambda>j. j \<notin> R) (image_indices_from i c))"
  by (induction c arbitrary: i) (simp_all add: filter_has_image_strip)

lemma filter_not_in_prefix:
  "set as \<inter> set bs = {} \<Longrightarrow> filter (\<lambda>x. x \<notin> set as) (as @ bs) = bs"
  by (auto simp: filter_empty_conv filter_id_conv)

lemma filter_not_in_take:
  "distinct xs \<Longrightarrow> filter (\<lambda>x. x \<notin> set (take m xs)) xs = drop m xs"
proof -
  assume d: "distinct xs"
  have "distinct (take m xs @ drop m xs)" using d by simp
  then have "set (take m xs) \<inter> set (drop m xs) = {}" by (simp only: distinct_append)
  then have "filter (\<lambda>x. x \<notin> set (take m xs)) (take m xs @ drop m xs) = drop m xs"
    by (rule filter_not_in_prefix)
  then show ?thesis by (simp only: append_take_drop_id)
qed

lemma count_trim_images:
  assumes "0 < k" "k < int (length (filter has_image c))"
  shows "int (length (filter has_image (trim_images c k))) = k"
proof -
  let ?ii = "image_indices_from 0 c"
  have n: "length ?ii = length (filter has_image c)" by (rule length_image_indices_from)
  have sl: "slice_to ?ii (- k) = take (nat (int (length ?ii) - k)) ?ii"
    using assms by (simp add: slice_to_def)
  have "trim_images c k = trim_loop (set (take (nat (int (length ?ii) - k)) ?ii)) 0 c"
    using assms n sl by (simp add: trim_images_def Let_def)
  then have "length (filter has_image (trim_images c k))
      = length (drop (nat (int (length ?ii) - k)) ?ii)"
    by (simp only: count_trim_loop filter_not_in_take [OF distinct_image_indices_from])
  then show ?thesis using assms n by simp
qed


lemma strip_images_has_image:
  "has_image m \<Longrightarrow> strip_images m =
     (case content m of
        Parts items \<Rightarrow>
          (let keep = filter (\<lambda>it. \<not> is_image_item it) items
           in if keep = [] then [] else [m\<lparr>content := Parts keep\<rparr>])
      | Text _ \<Rightarrow> [])"
  by (cases m) (auto simp: has_image_def strip_images_def is_image_item_def Let_def split: content.splits)

lemma trim_loop_concat0:
  "trim_loop R 0 c =
     concat (map (\<lambda>j. if j \<in> R then strip_images (c ! j) else [c ! j]) [0..<length c])"
  using trim_loop_concat [of R 0 c] by (simp cong: if_cong)


text \<open>
  Claim C2 (for every budget \<open>k \<ge> 0\<close>, a conversation with more than \<open>k\<close> image-bearing
  user messages comes back with at most \<open>k\<close> of them, the last \<open>k\<close>). With a budget of
  zero the slice \<open>image_indices[:-max_images]\<close> is \<open>image_indices[:0]\<close>, the empty list:
  no index is selected and every image stays. The sample conversation has three
  image-bearing messages; trimmed to a budget of 0 it is returned as it is, with all three.
\<close>

theorem trim_images_zero_budget:
  "length (filter has_image sample_conversation) = 3
   \<and> trim_images sample_conversation 0 = sample_conversation
   \<and> length (filter has_image (trim_images sample_conversation 0)) = 3"
  by (simp add: sample_defs trim_images_def slice_to_def has_image_def is_image_item_def)

text \<open>
  Claim C7: \<open>trim_images\<close> is idempotent. For every conversation \<open>c\<close> and every budget
  \<open>k \<ge> 0\<close>, trimming the trimmed conversation again with the same budget changes nothing.
\<close>

theorem trim_images_idempotent:
  "0 \<le> k \<Longrightarrow> trim_images (trim_images c k) k = trim_images c k"
proof -
  assume k: "0 \<le> k"
  let ?n = "int (length (filter has_image c))"
  consider "?n \<le> k" | "k = 0" "k < ?n" | "0 < k" "k < ?n" using k by linarith
  then show ?thesis
  proof cases
    case 1
    then have "trim_images c k = c"
      by (simp add: trim_images_def length_image_indices_from)
    then show ?thesis by simp
  next
    case 2
    then have "trim_images c k = c"
      by (simp add: trim_images_def Let_def slice_to_def trim_loop_empty)
    then show ?thesis by simp
  next
    case 3
    then have "int (length (filter has_image (trim_images c k))) = k"
      by (rule count_trim_images)
    then show ?thesis
      by (simp add: trim_images_def [of "trim_images c k"] length_image_indices_from)
  qed
qed

theorem trim_images_idempotent_witness:
  "(0::int) \<le> 1
   \<and> trim_images sample_conversation 1 \<noteq> sample_conversation
   \<and> trim_images (trim_images sample_conversation 1) 1 = trim_images sample_conversation 1"
  using trim_images_idempotent [of 1 sample_conversation]
  by (simp add: sample_defs trim_images_def slice_to_def has_image_def is_image_item_def strip_images_def)

text \<open>
  Claim C8: \<open>trim_images\<close> changes nothing but the selected oldest image-bearing user
  messages. There is a position \<open>b\<close> in the conversation such that the result is the
  conversation read in order, where each image-bearing user message before \<open>b\<close> is
  replaced by itself with the image items removed and all other items kept, or by nothing
  when no item is left, and every other message (system, assistant, user without image,
  image-bearing from \<open>b\<close> on) stands unchanged. The function builds a new list and new
  messages and assigns to nothing it was given, which the model reflects by computing the
  result from the input value.
\<close>

theorem trim_images_frame:
  "\<exists>b\<le>length c. trim_images c k =
     concat (map (\<lambda>j. if j < b \<and> has_image (c ! j)
                      then (case content (c ! j) of
                              Parts items \<Rightarrow>
                                (let keep = filter (\<lambda>it. \<not> is_image_item it) items
                                 in if keep = [] then [] else [(c ! j)\<lparr>content := Parts keep\<rparr>])
                            | Text _ \<Rightarrow> [])
                      else [c ! j]) [0..<length c])"
proof -
  let ?keep = "\<lambda>m. (case content m of
                        Parts items \<Rightarrow>
                          (let keep = filter (\<lambda>it. \<not> is_image_item it) items
                           in if keep = [] then [] else [m\<lparr>content := Parts keep\<rparr>])
                      | Text _ \<Rightarrow> [])"
  let ?ii = "image_indices_from 0 c"
  have ii: "?ii = filter (\<lambda>j. has_image (c ! j)) [0..<length c]"
    using image_indices_from_filter [of 0 c] by simp
  show ?thesis
  proof (cases "int (length ?ii) \<le> k")
    case True
    then have "trim_images c k = c" by (simp add: trim_images_def)
    moreover have "concat (map (\<lambda>j. if j < 0 \<and> has_image (c ! j) then ?keep (c ! j) else [c ! j])
                     [0..<length c]) = c"
      by (simp add: map_nth)
    ultimately have "0 \<le> length c \<and> trim_images c k =
        concat (map (\<lambda>j. if j < 0 \<and> has_image (c ! j) then ?keep (c ! j) else [c ! j]) [0..<length c])"
      by simp
    then show ?thesis by (rule exI [of _ 0])
  next
    case False
    obtain m where m: "slice_to ?ii (- k) = take m ?ii"
      by (cases "- k < 0") (simp_all add: slice_to_def)
    obtain b where b: "b \<le> length c" "take m ?ii = filter (\<lambda>j. has_image (c ! j)) [0..<b]"
      using take_filter_upt [of "length c" m "\<lambda>j. has_image (c ! j)"] unfolding ii by blast
    have R: "\<And>j. j \<in> set (slice_to ?ii (- k)) \<longleftrightarrow> j < b \<and> has_image (c ! j)"
      unfolding m b(2) by simp
    have "trim_images c k = trim_loop (set (slice_to ?ii (- k))) 0 c"
      using False by (simp add: trim_images_def Let_def)
    also have "\<dots> = concat (map (\<lambda>j. if j < b \<and> has_image (c ! j) then strip_images (c ! j) else [c ! j])
                        [0..<length c])"
      by (simp add: trim_loop_concat0 R cong: if_cong)
    also have "\<dots> = concat (map (\<lambda>j. if j < b \<and> has_image (c ! j) then ?keep (c ! j) else [c ! j])
                        [0..<length c])"
      by (rule arg_cong [where f = concat], rule map_cong [OF refl])
         (simp add: strip_images_has_image)
    finally have "b \<le> length c \<and> trim_images c k =
        concat (map (\<lambda>j. if j < b \<and> has_image (c ! j) then ?keep (c ! j) else [c ! j]) [0..<length c])"
      using b(1) by simp
    then show ?thesis by (rule exI [of _ b])
  qed
qed

theorem trim_images_frame_witness:
  "\<exists>b\<le>length sample_conversation. trim_images sample_conversation 1 =
     concat (map (\<lambda>j. if j < b \<and> has_image (sample_conversation ! j)
                      then (case content (sample_conversation ! j) of
                              Parts items \<Rightarrow>
                                (let keep = filter (\<lambda>it. \<not> is_image_item it) items
                                 in if keep = [] then [] else [(sample_conversation ! j)\<lparr>content := Parts keep\<rparr>])
                            | Text _ \<Rightarrow> [])
                      else [sample_conversation ! j]) [0..<length sample_conversation])"
  using trim_images_frame [of sample_conversation 1] .

section \<open>Searching\<close>

lemma re_search_None: "re_search m s = None \<longleftrightarrow> (\<forall>k\<le>length s. m (drop k s) = None)"
proof (induction s)
  case Nil
  show ?case by simp
next
  case (Cons c cs)
  have "(\<forall>k\<le>length (c # cs). m (drop k (c # cs)) = None)
      \<longleftrightarrow> m (c # cs) = None \<and> (\<forall>k\<le>length cs. m (drop k cs) = None)"
  proof
    assume a: "\<forall>k\<le>length (c # cs). m (drop k (c # cs)) = None"
    have "m (c # cs) = None" using a [rule_format, of 0] by simp
    moreover have "\<forall>k\<le>length cs. m (drop k cs) = None"
    proof (intro allI impI)
      fix k assume "k \<le> length cs"
      then show "m (drop k cs) = None" using a [rule_format, of "Suc k"] by simp
    qed
    ultimately show "m (c # cs) = None \<and> (\<forall>k\<le>length cs. m (drop k cs) = None)" by simp
  next
    assume a: "m (c # cs) = None \<and> (\<forall>k\<le>length cs. m (drop k cs) = None)"
    show "\<forall>k\<le>length (c # cs). m (drop k (c # cs)) = None"
    proof (intro allI impI)
      fix k assume "k \<le> length (c # cs)"
      then show "m (drop k (c # cs)) = None" using a by (cases k) simp_all
    qed
  qed
  then show ?case using Cons.IH by (simp split: option.splits)
qed

lemma re_search_first:
  "k \<le> length s \<Longrightarrow> m (drop k s) = Some r \<Longrightarrow> (\<forall>j<k. m (drop j s) = None)
     \<Longrightarrow> re_search m s = Some r"
proof (induction s arbitrary: k)
  case Nil
  then show ?case by simp
next
  case (Cons c cs)
  show ?case
  proof (cases k)
    case 0
    then show ?thesis using Cons.prems by simp
  next
    case (Suc k')
    have "m (c # cs) = None" using Cons.prems(3) [rule_format, of 0] Suc by simp
    moreover have "re_search m cs = Some r"
    proof (rule Cons.IH [of k'])
      show "k' \<le> length cs" using Cons.prems(1) Suc by simp
      show "m (drop k' cs) = Some r" using Cons.prems(2) Suc by simp
      show "\<forall>j<k'. m (drop j cs) = None"
      proof (intro allI impI)
        fix j assume "j < k'"
        then show "m (drop j cs) = None" using Cons.prems(3) [rule_format, of "Suc j"] Suc by simp
      qed
    qed
    ultimately show ?thesis by simp
  qed
qed

lemma re_search_head: "m s = Some r \<Longrightarrow> re_search m s = Some r"
  using re_search_first [of 0 s m r] by simp


section \<open>Character classes\<close>

lemma isword_not_isspace: "isword c \<Longrightarrow> \<not> isspace c"
  by (auto simp: isword_def isspace_def Let_def)

lemma isword_not_paren: "isword c \<Longrightarrow> c \<noteq> CHR ''(''"
  by (auto simp: isword_def ord_chr_def)

lemma not_isword_paren: "\<not> isword (CHR ''('')"
  by (simp add: isword_def ord_chr_def)

lemma isword_Action: "list_all isword ''Click''" "list_all isword ''Scroll''" "list_all isword ''Type''"
  "list_all isword ''Press''" "list_all isword ''CallUser''"  "list_all isword ''Wait''" "list_all isword ''Finished''"
  by (simp_all add: isword_def ord_chr_def)

section \<open>The call pattern on a call\<close>

lemma takeWhile_drop_closing:
  "dropWhile (\<lambda>c. c \<noteq> CHR '')'') (t @ '')'' @ rest) \<noteq> []"
  by (induction t) simp_all

lemma takeWhile_closing:
  "takeWhile (\<lambda>c. c \<noteq> CHR '')'') (t @ '')'' @ rest) = takeWhile (\<lambda>c. c \<noteq> CHR '')'') t"
  by (induction t) simp_all

lemma action_match_at_call:
  assumes "nm \<noteq> []" "list_all isword nm" "list_all isspace ws"
  shows "action_match_at (''Action:'' @ ws @ nm @ ''('' @ t @ '')'' @ rest)
           = Some (nm, takeWhile (\<lambda>c. c \<noteq> CHR '')'') t)"
proof -
  have hd: "\<not> isspace (hd nm)" using assms(1,2) by (cases nm) (simp_all add: isword_not_isspace)
  have r1: "dropWhile isspace (ws @ nm @ ''('' @ t @ '')'' @ rest) = nm @ ''('' @ t @ '')'' @ rest"
    using assms(1,3) hd by (cases nm) (simp_all add: dropWhile_append list_all_iff)
  have g1: "takeWhile isword (nm @ ''('' @ t @ '')'' @ rest) = nm"
    using assms(2) by (simp add: takeWhile_append list_all_iff not_isword_paren del: takeWhile_append2)
  have r2: "dropWhile isword (nm @ ''('' @ t @ '')'' @ rest) = ''('' @ t @ '')'' @ rest"
    using assms(2) by (simp add: dropWhile_append list_all_iff not_isword_paren)
  show ?thesis
    using assms(1) takeWhile_drop_closing [of t rest] takeWhile_closing [of t rest]
    by (simp add: action_match_at_def starts_with_def r1 [simplified] g1 [simplified] r2 [simplified])
qed

section \<open>Decimal text\<close>

lemma ord_digit_chr: "d < 10 \<Longrightarrow> ord_chr (digit_chr d) = 48 + d"
  by (simp add: ord_chr_def digit_chr_def)

lemma isdecimal_digit_chr: "d < 10 \<Longrightarrow> isdecimal (digit_chr d)"
  by (simp add: isdecimal_def ord_digit_chr)

declare str_nat.simps [simp del]

lemma str_nat_decimal: "list_all isdecimal (str_nat n)"
proof (induction n rule: str_nat.induct)
  case (1 n)
  show ?case
  proof (cases "n < 10")
    case True
    then show ?thesis by (simp add: str_nat.simps [of n] isdecimal_digit_chr)
  next
    case False
    then show ?thesis using 1 by (simp add: str_nat.simps [of n] isdecimal_digit_chr)
  qed
qed

lemma str_nat_nonempty: "str_nat n \<noteq> []"
  by (simp add: str_nat.simps [of n])

lemma digits_value_snoc:
  "digits_value (ds @ [c]) = 10 * digits_value ds + int (ord_chr c - 48)"
  by (simp add: digits_value_def)

lemma digits_value_str_nat: "digits_value (str_nat n) = int n"
proof (induction n rule: str_nat.induct)
  case (1 n)
  show ?case
  proof (cases "n < 10")
    case True
    then show ?thesis by (simp add: str_nat.simps [of n] digits_value_def ord_digit_chr)
  next
    case False
    then have "digits_value (str_nat n) = 10 * int (n div 10) + int (n mod 10)"
      using 1 by (simp add: str_nat.simps [of n] digits_value_snoc ord_digit_chr)
    moreover have "int n = int (10 * (n div 10) + n mod 10)" by simp
    ultimately show ?thesis by (simp only: of_nat_add of_nat_mult of_nat_numeral)
  qed
qed

lemma length_str_nat: "n < 10 ^ k \<Longrightarrow> 0 < k \<Longrightarrow> length (str_nat n) \<le> k"
proof (induction n arbitrary: k rule: str_nat.induct)
  case (1 n)
  show ?case
  proof (cases "n < 10")
    case True
    then show ?thesis using "1.prems" by (simp add: str_nat.simps [of n])
  next
    case False
    have "k \<noteq> Suc 0" using False "1.prems"(1) by auto
    then obtain k' where k': "k = Suc k'" "0 < k'" using "1.prems"(2)
      by (cases k) auto
    have "n div 10 < 10 ^ k'" using "1.prems"(1) k'(1) by (simp add: less_mult_imp_div_less mult.commute)
    then have "length (str_nat (n div 10)) \<le> k'" using "1.IH" False k'(2) by simp
    then show ?thesis using False k'(1) by (simp add: str_nat.simps [of n])
  qed
qed

lemma isdecimal_facts:
  "isdecimal c \<Longrightarrow> \<not> isspace c"
  "isdecimal c \<Longrightarrow> c \<noteq> CHR ''_''"
  "isdecimal c \<Longrightarrow> c \<noteq> CHR ''-''"
  "isdecimal c \<Longrightarrow> c \<noteq> CHR ''+''"
  "isdecimal c \<Longrightarrow> c \<noteq> CHR '',''"
  "isdecimal c \<Longrightarrow> c \<noteq> CHR '')''"
  by (auto simp: isdecimal_def isspace_def ord_chr_def Let_def)

section \<open>Stripping\<close>

lemma strip_by_id: "s \<noteq> [] \<Longrightarrow> \<not> P (hd s) \<Longrightarrow> \<not> P (last s) \<Longrightarrow> strip_by P s = s"
proof -
  assume a: "s \<noteq> []" "\<not> P (hd s)" "\<not> P (last s)"
  have "dropWhile P s = s" using a(1,2) by (cases s) simp_all
  moreover have "dropWhile P (rev s) = rev s" using a(1,3) by (cases "rev s") (simp_all add: last_rev [symmetric] hd_rev)
  ultimately show ?thesis by (simp add: strip_by_def)
qed

lemma strip_by_Nil: "strip_by P [] = []"
  by (simp add: strip_by_def)

lemma hd_last_all: "list_all Q s \<Longrightarrow> s \<noteq> [] \<Longrightarrow> Q (hd s) \<and> Q (last s)"
  by (simp add: list_all_iff)

lemma double_underscore_decimal: "list_all isdecimal s \<Longrightarrow> \<not> double_underscore s"
  by (induction s rule: double_underscore.induct) (auto simp: isdecimal_facts)

lemma py_int_decimal:
  assumes "list_all isdecimal s" "s \<noteq> []" "length s \<le> 4300"
  shows "py_int s = Inr (digits_value s)"
proof -
  have hl: "isdecimal (hd s)" "isdecimal (last s)" using hd_last_all [OF assms(1,2)] by simp_all
  have strip: "py_strip s = s"
    unfolding py_strip_def using assms(2) hl by (intro strip_by_id) (simp_all add: isdecimal_facts)
  have sign: "\<not> starts_with ''-'' s" "\<not> starts_with ''+'' s" "\<not> starts_with ''_'' s"
    using assms(2) hl(1) by (cases s; auto simp: starts_with_def dest: isdecimal_facts)+
  have run: "takeWhile (\<lambda>c. isdecimal c \<or> c = CHR ''_'') s = s"
    using assms(1) by (simp add: takeWhile_eq_all_conv list_all_iff)
  have rest: "dropWhile (\<lambda>c. isdecimal c \<or> c = CHR ''_'') s = []"
    using assms(1) by (simp add: list_all_iff)
  have ds: "filter isdecimal s = s" using assms(1) by (simp add: filter_id_conv list_all_iff)
  have last: "last s \<noteq> CHR ''_''" using hl(2) by (simp add: isdecimal_facts)
  show ?thesis
    using assms(2,3) double_underscore_decimal [OF assms(1)]
    by (simp add: py_int_def Let_def strip sign run rest ds last)
qed

lemma py_int_str_nat: "n \<le> 1000 \<Longrightarrow> py_int (str_nat n) = Inr (int n)"
proof -
  assume "n \<le> 1000"
  then have "n < 10 ^ 4" by simp
  then have "length (str_nat n) \<le> 4" by (rule length_str_nat) simp
  then show ?thesis
    using py_int_decimal [OF str_nat_decimal str_nat_nonempty, of n] by (simp add: digits_value_str_nat)
qed

lemma py_int_error: "py_int s = Inl e \<Longrightarrow> \<exists>m. e = ValueError m"
  by (auto simp: py_int_def Let_def invalid_literal_def exceeds_limit_def split: if_splits)

section \<open>Splitting\<close>

lemma py_split_no_sep: "sep \<notin> set a \<Longrightarrow> py_split sep a = [a]"
  by (induction a) (auto simp: Let_def)

lemma py_split_sep: "sep \<notin> set a \<Longrightarrow> py_split sep (a @ sep # b) = a # py_split sep b"
  by (induction a) (auto simp: Let_def)

lemma py_split_nonempty: "py_split sep s \<noteq> []"
  by (induction s) (simp_all add: Let_def)

section \<open>The parser on a call\<close>

lemma parse_action_found:
  "re_search action_match_at s = Some (nm, g2) \<Longrightarrow>
   parse_action s =
     (case parse_args nm (py_strip g2) of
        Inl (ValueError m) \<Rightarrow> Inl (ActionParseError (''Invalid argument format: '' @ m))
      | r \<Rightarrow> r)"
  by (simp add: parse_action_def)

lemma parse_action_call:
  assumes "nm \<noteq> []" "list_all isword nm"
  shows "parse_action (''Action: '' @ nm @ ''('' @ t @ '')'') =
     (case parse_args nm (py_strip (takeWhile (\<lambda>c. c \<noteq> CHR '')'') t)) of
        Inl (ValueError m) \<Rightarrow> Inl (ActionParseError (''Invalid argument format: '' @ m))
      | r \<Rightarrow> r)"
proof -
  have "action_match_at (''Action:'' @ '' '' @ nm @ ''('' @ t @ '')'' @ [])
      = Some (nm, takeWhile (\<lambda>c. c \<noteq> CHR '')'') t)"
    using assms by (intro action_match_at_call) (simp_all add: isspace_def ord_chr_def)
  then have "re_search action_match_at (''Action: '' @ nm @ ''('' @ t @ '')'')
      = Some (nm, takeWhile (\<lambda>c. c \<noteq> CHR '')'') t)"
    by (intro re_search_head) simp
  then show ?thesis by (rule parse_action_found)
qed

lemma takeWhile_no_closing: "CHR '')'' \<notin> set t \<Longrightarrow> takeWhile (\<lambda>c. c \<noteq> CHR '')'') t = t"
  by (simp add: takeWhile_eq_all_conv) blast

lemmas parse_Click = parse_action_call [of "''Click''", OF _ isword_Action(1), simplified]
lemmas parse_Scroll = parse_action_call [of "''Scroll''", OF _ isword_Action(2), simplified]
lemmas parse_Type = parse_action_call [of "''Type''", OF _ isword_Action(3), simplified]
lemmas parse_Press = parse_action_call [of "''Press''", OF _ isword_Action(4), simplified]
lemmas parse_CallUser = parse_action_call [of "''CallUser''", OF _ isword_Action(5), simplified]


section \<open>Type, Press, CallUser\<close>

text \<open>
  Claim C5, as amended: for Type, Press and CallUser the argument text between the opening
  parenthesis and the first closing parenthesis, with the whitespace at its two ends
  removed, becomes the content of the action, commas included; when nothing is left the
  parse fails, for all three.
\<close>

theorem free_text_content:
  "parse_action (''Action: Type('' @ t @ '')'') =
     (let content = py_strip (takeWhile (\<lambda>c. c \<noteq> CHR '')'') t) in
      if content = [] then Inl (ActionParseError ''Type requires content: Type(text to type)'')
      else Inr \<lparr>name = ''Type'', args = [(''content'', StrV content)], error = None\<rparr>)
   \<and> parse_action (''Action: Press('' @ t @ '')'') =
     (let content = py_strip (takeWhile (\<lambda>c. c \<noteq> CHR '')'') t) in
      if content = [] then Inl (ActionParseError ''Press requires a key: Press(Enter)'')
      else Inr \<lparr>name = ''Press'', args = [(''key'', StrV content)], error = None\<rparr>)
   \<and> parse_action (''Action: CallUser('' @ t @ '')'') =
     (let content = py_strip (takeWhile (\<lambda>c. c \<noteq> CHR '')'') t) in
      if content = [] then
        Inl (ActionParseError ''CallUser requires a question: CallUser(your question here)'')
      else Inr \<lparr>name = ''CallUser'', args = [(''question'', StrV content)], error = None\<rparr>)"
  by (simp add: parse_Type parse_Press parse_CallUser parse_args_def Let_def)

text \<open>
  Claim C5 as stated (the content is exactly the text between the parentheses, for every
  non-empty text) fails: a leading blank is removed, the text is cut at its first closing
  parenthesis, and a text of one blank is refused as empty.
\<close>

theorem free_text_content_counterexample:
  "parse_action ''Action: Type( a)''
     = Inr \<lparr>name = ''Type'', args = [(''content'', StrV ''a'')], error = None\<rparr>
   \<and> parse_action ''Action: Type(f(x), y)''
     = Inr \<lparr>name = ''Type'', args = [(''content'', StrV ''f(x'')], error = None\<rparr>
   \<and> parse_action ''Action: Type( )''
     = Inl (ActionParseError ''Type requires content: Type(text to type)'')"
  by code_simp

lemma strip_by_drop_head: "P c \<Longrightarrow> strip_by P (c # s) = strip_by P s"
  by (simp add: strip_by_def)

lemma py_strip_decimal: "list_all isdecimal s \<Longrightarrow> s \<noteq> [] \<Longrightarrow> py_strip s = s"
  unfolding py_strip_def using hd_last_all [of isdecimal s]
  by (intro strip_by_id) (simp_all add: isdecimal_facts)

lemma py_strip_space_decimal:
  "list_all isdecimal s \<Longrightarrow> s \<noteq> [] \<Longrightarrow> py_strip (CHR '' '' # s) = s"
  using py_strip_decimal [of s]
  by (simp add: py_strip_def strip_by_drop_head isspace_def ord_chr_def)

lemma notin_decimal: "list_all isdecimal s \<Longrightarrow> CHR '','' \<notin> set s \<and> CHR '')'' \<notin> set s"
  by (auto simp: list_all_iff dest: isdecimal_facts)

lemma click_text:
  assumes "list_all isdecimal a" "a \<noteq> []" "list_all isdecimal b" "b \<noteq> []"
  shows "py_strip (takeWhile (\<lambda>c. c \<noteq> CHR '')'') (a @ '', '' @ b)) = a @ '', '' @ b"
    and "map py_strip (py_split (CHR '','') (a @ '', '' @ b)) = [a, b]"
proof -
  let ?t = "a @ '', '' @ b"
  have "CHR '')'' \<notin> set ?t" using notin_decimal [OF assms(1)] notin_decimal [OF assms(3)] by simp
  then have tw: "takeWhile (\<lambda>c. c \<noteq> CHR '')'') ?t = ?t" by (rule takeWhile_no_closing)
  have ne: "?t \<noteq> []" using assms(2) by simp
  have "hd ?t = hd a" "last ?t = last b" using assms(2,4) by simp_all
  then have "\<not> isspace (hd ?t)" "\<not> isspace (last ?t)"
    using hd_last_all [OF assms(1,2)] hd_last_all [OF assms(3,4)] by (simp_all add: isdecimal_facts)
  then have "py_strip ?t = ?t" unfolding py_strip_def using ne by (intro strip_by_id)
  then show "py_strip (takeWhile (\<lambda>c. c \<noteq> CHR '')'') ?t) = ?t" by (simp only: tw)
  have "py_split (CHR '','') (a @ CHR '','' # (CHR '' '' # b)) = a # py_split (CHR '','') (CHR '' '' # b)"
    using notin_decimal [OF assms(1)] by (intro py_split_sep) simp
  moreover have "py_split (CHR '','') (CHR '' '' # b) = [CHR '' '' # b]"
    using notin_decimal [OF assms(3)] by (intro py_split_no_sep) simp
  ultimately show "map py_strip (py_split (CHR '','') ?t) = [a, b]"
    using assms by (simp add: py_strip_decimal py_strip_space_decimal)
qed

lemma click_in_range:
  assumes "x \<le> 1000" "y \<le> 1000"
  shows "parse_action (''Action: Click('' @ str_nat x @ '', '' @ str_nat y @ '')'')
     = Inr \<lparr>name = ''Click'', args = [(''x'', IntV (int x)), (''y'', IntV (int y))], error = None\<rparr>"
proof -
  note ct = click_text [OF str_nat_decimal str_nat_nonempty str_nat_decimal str_nat_nonempty, of x y]
  have ne: "str_nat x @ '', '' @ str_nat y \<noteq> []" by (simp add: str_nat_nonempty)
  show ?thesis
    using assms ne
    by (simp add: parse_Click [of "str_nat x @ '', '' @ str_nat y", simplified] ct [simplified]
          parse_args_def py_int_str_nat)
qed

lemma click_args:
  assumes "CHR '')'' \<notin> set t" "map py_strip (py_split (CHR '','') (py_strip t)) = ps" "py_strip t \<noteq> []"
  shows "parse_action (''Action: Click('' @ t @ '')'') =
     (if length ps \<noteq> 2 then
        Inl (ActionParseError (''Click requires exactly 2 arguments (x, y), got '' @ str_nat (length ps)))
      else
        (case py_int (ps ! 0) of
           Inl e \<Rightarrow> Inl (ActionParseError (''Invalid argument format: '' @ str_exn e))
         | Inr x \<Rightarrow>
        (case py_int (ps ! 1) of
           Inl e \<Rightarrow> Inl (ActionParseError (''Invalid argument format: '' @ str_exn e))
         | Inr y \<Rightarrow>
             if \<not> (0 \<le> x \<and> x \<le> 1000 \<and> 0 \<le> y \<and> y \<le> 1000) then
               Inl (ActionParseError (''Coordinates must be 0-1000, got ('' @ py_str x @ '', '' @ py_str y @ '')''))
             else Inr \<lparr>name = ''Click'', args = [(''x'', IntV x), (''y'', IntV y)], error = None\<rparr>)))"
  using assms
  by (auto simp: parse_Click parse_args_def takeWhile_no_closing Let_def
           split: sum.splits exn.splits dest: py_int_error)

text \<open>
  Claim C3: for all integers \<open>x\<close>, \<open>y\<close> in \<open>[0, 1000]\<close>, parsing \<open>Action: Click(x, y)\<close>
  gives the Click action with those coordinates and no error; \<open>Action: Click(1001, 500)\<close>
  and \<open>Action: Click(-1, 0)\<close> fail with the range diagnostic; and the checks run in the
  order arity, integer format, range: for a call \<open>Action: Click(t)\<close> whose argument text
  \<open>t\<close> has no closing parenthesis, a wrong number of comma-separated pieces gives the
  arity diagnostic whatever the pieces are, two pieces of which one is no integer give the
  format diagnostic whatever the other is, and only two integers out of range give the
  range diagnostic. The three diagnostics begin with different words.
\<close>

theorem click_validation:
  "(0 \<le> x \<and> x \<le> 1000 \<and> 0 \<le> y \<and> y \<le> 1000 \<longrightarrow>
      parse_action (''Action: Click('' @ py_str x @ '', '' @ py_str y @ '')'')
        = Inr \<lparr>name = ''Click'', args = [(''x'', IntV x), (''y'', IntV y)], error = None\<rparr>)
   \<and> parse_action ''Action: Click(1001, 500)''
        = Inl (ActionParseError ''Coordinates must be 0-1000, got (1001, 500)'')
   \<and> parse_action ''Action: Click(-1, 0)''
        = Inl (ActionParseError ''Coordinates must be 0-1000, got (-1, 0)'')
   \<and> (CHR '')'' \<notin> set t \<and> py_strip t = [] \<longrightarrow>
        parse_action (''Action: Click('' @ t @ '')'')
          = Inl (ActionParseError ''Click requires coordinates: Click(x, y)''))
   \<and> (CHR '')'' \<notin> set t \<and> py_strip t \<noteq> []
        \<and> map py_strip (py_split (CHR '','') (py_strip t)) = ps \<and> length ps \<noteq> 2 \<longrightarrow>
        parse_action (''Action: Click('' @ t @ '')'')
          = Inl (ActionParseError (''Click requires exactly 2 arguments (x, y), got '' @ str_nat (length ps))))
   \<and> (CHR '')'' \<notin> set t \<and> map py_strip (py_split (CHR '','') (py_strip t)) = [p, q]
        \<and> (py_int p = Inl e \<or> (py_int p = Inr u \<and> py_int q = Inl e)) \<longrightarrow>
        parse_action (''Action: Click('' @ t @ '')'')
          = Inl (ActionParseError (''Invalid argument format: '' @ str_exn e)))
   \<and> (CHR '')'' \<notin> set t \<and> map py_strip (py_split (CHR '','') (py_strip t)) = [p, q]
        \<and> py_int p = Inr u \<and> py_int q = Inr v \<and> \<not> (0 \<le> u \<and> u \<le> 1000 \<and> 0 \<le> v \<and> v \<le> 1000) \<longrightarrow>
        parse_action (''Action: Click('' @ t @ '')'')
          = Inl (ActionParseError (''Coordinates must be 0-1000, got ('' @ py_str u @ '', '' @ py_str v @ '')'')))"
proof (intro conjI impI)
  assume a: "0 \<le> x \<and> x \<le> 1000 \<and> 0 \<le> y \<and> y \<le> 1000"
  have "nat x \<le> 1000" using a by linarith
  moreover have "nat y \<le> 1000" using a by linarith
  ultimately show "parse_action (''Action: Click('' @ py_str x @ '', '' @ py_str y @ '')'')
        = Inr \<lparr>name = ''Click'', args = [(''x'', IntV x), (''y'', IntV y)], error = None\<rparr>"
    using a click_in_range [of "nat x" "nat y"] by (simp add: py_str_def)
next
  show "parse_action ''Action: Click(1001, 500)''
        = Inl (ActionParseError ''Coordinates must be 0-1000, got (1001, 500)'')"
    by code_simp
next
  show "parse_action ''Action: Click(-1, 0)''
        = Inl (ActionParseError ''Coordinates must be 0-1000, got (-1, 0)'')"
    by code_simp
next
  assume "CHR '')'' \<notin> set t \<and> py_strip t = []"
  then show "parse_action (''Action: Click('' @ t @ '')'')
          = Inl (ActionParseError ''Click requires coordinates: Click(x, y)'')"
    by (simp add: parse_Click parse_args_def takeWhile_no_closing)
next
  assume "CHR '')'' \<notin> set t \<and> py_strip t \<noteq> []
        \<and> map py_strip (py_split (CHR '','') (py_strip t)) = ps \<and> length ps \<noteq> 2"
  then show "parse_action (''Action: Click('' @ t @ '')'')
          = Inl (ActionParseError (''Click requires exactly 2 arguments (x, y), got '' @ str_nat (length ps)))"
    using click_args [of t ps] by simp
next
  assume a: "CHR '')'' \<notin> set t \<and> map py_strip (py_split (CHR '','') (py_strip t)) = [p, q]
        \<and> (py_int p = Inl e \<or> (py_int p = Inr u \<and> py_int q = Inl e))"
  then have "py_strip t \<noteq> []" by auto
  then show "parse_action (''Action: Click('' @ t @ '')'')
          = Inl (ActionParseError (''Invalid argument format: '' @ str_exn e))"
    using a click_args [of t "[p, q]"] by auto
next
  assume a: "CHR '')'' \<notin> set t \<and> map py_strip (py_split (CHR '','') (py_strip t)) = [p, q]
        \<and> py_int p = Inr u \<and> py_int q = Inr v \<and> \<not> (0 \<le> u \<and> u \<le> 1000 \<and> 0 \<le> v \<and> v \<le> 1000)"
  then have "py_strip t \<noteq> []" by auto
  then show "parse_action (''Action: Click('' @ t @ '')'')
          = Inl (ActionParseError (''Coordinates must be 0-1000, got ('' @ py_str u @ '', '' @ py_str v @ '')''))"
    using a click_args [of t "[p, q]"] by auto
qed

theorem click_validation_witness:
  "((0::int) \<le> 500 \<and> (500::int) \<le> 1000 \<and> (0::int) \<le> 300 \<and> (300::int) \<le> 1000)
   \<and> parse_action (''Action: Click('' @ py_str 500 @ '', '' @ py_str 300 @ '')'')
        = Inr \<lparr>name = ''Click'', args = [(''x'', IntV 500), (''y'', IntV 300)], error = None\<rparr>
   \<and> (CHR '')'' \<notin> set '' '' \<and> py_strip '' '' = [])
   \<and> parse_action (''Action: Click('' @ '' '' @ '')'')
        = Inl (ActionParseError ''Click requires coordinates: Click(x, y)'')
   \<and> (CHR '')'' \<notin> set ''abc,5000,7'' \<and> py_strip ''abc,5000,7'' \<noteq> []
        \<and> map py_strip (py_split (CHR '','') (py_strip ''abc,5000,7'')) = [''abc'', ''5000'', ''7'']
        \<and> length [''abc'', ''5000'', ''7''] \<noteq> 2)
   \<and> parse_action (''Action: Click('' @ ''abc,5000,7'' @ '')'')
        = Inl (ActionParseError (''Click requires exactly 2 arguments (x, y), got ''
             @ str_nat (length [''abc'', ''5000'', ''7''])))
   \<and> (CHR '')'' \<notin> set ''5000, abc'' \<and> map py_strip (py_split (CHR '','') (py_strip ''5000, abc'')) = [''5000'', ''abc'']
        \<and> py_int ''5000'' = Inr 5000 \<and> py_int ''abc'' = Inl (invalid_literal ''abc''))
   \<and> parse_action (''Action: Click('' @ ''5000, abc'' @ '')'')
        = Inl (ActionParseError (''Invalid argument format: '' @ str_exn (invalid_literal ''abc'')))
   \<and> (CHR '')'' \<notin> set ''5000, 300'' \<and> map py_strip (py_split (CHR '','') (py_strip ''5000, 300'')) = [''5000'', ''300'']
        \<and> py_int ''5000'' = Inr 5000 \<and> py_int ''300'' = Inr 300
        \<and> \<not> ((0::int) \<le> 5000 \<and> (5000::int) \<le> 1000 \<and> (0::int) \<le> 300 \<and> (300::int) \<le> 1000))
   \<and> parse_action (''Action: Click('' @ ''5000, 300'' @ '')'')
        = Inl (ActionParseError (''Coordinates must be 0-1000, got ('' @ py_str 5000 @ '', '' @ py_str 300 @ '')''))"
proof -
  have h1: "(0::int) \<le> 500 \<and> (500::int) \<le> 1000 \<and> (0::int) \<le> 300 \<and> (300::int) \<le> 1000" by simp
  have h2: "CHR '')'' \<notin> set '' '' \<and> py_strip '' '' = []" by code_simp
  have h3: "CHR '')'' \<notin> set ''abc,5000,7'' \<and> py_strip ''abc,5000,7'' \<noteq> []
        \<and> map py_strip (py_split (CHR '','') (py_strip ''abc,5000,7'')) = [''abc'', ''5000'', ''7'']
        \<and> length [''abc'', ''5000'', ''7''] \<noteq> 2" by code_simp
  have h4: "CHR '')'' \<notin> set ''5000, abc'' \<and> map py_strip (py_split (CHR '','') (py_strip ''5000, abc'')) = [''5000'', ''abc'']
        \<and> (py_int ''5000'' = Inr 5000 \<and> py_int ''abc'' = Inl (invalid_literal ''abc''))" by code_simp
  have h5: "CHR '')'' \<notin> set ''5000, 300'' \<and> map py_strip (py_split (CHR '','') (py_strip ''5000, 300'')) = [''5000'', ''300'']
        \<and> py_int ''5000'' = Inr 5000 \<and> py_int ''300'' = Inr 300
        \<and> \<not> ((0::int) \<le> 5000 \<and> (5000::int) \<le> 1000 \<and> (0::int) \<le> 300 \<and> (300::int) \<le> 1000)" by code_simp
  note c1 = click_validation [of 500 300, THEN conjunct1, rule_format, OF h1]
  note c2 = click_validation [of _ _ "'' ''", THEN conjunct2, THEN conjunct2, THEN conjunct2, THEN conjunct1, rule_format, OF h2]
  note c3 = click_validation [of _ _ "''abc,5000,7''" "[''abc'', ''5000'', ''7'']", THEN conjunct2, THEN conjunct2, THEN conjunct2,
      THEN conjunct2, THEN conjunct1, rule_format, OF h3]
  have h4': "CHR '')'' \<notin> set ''5000, abc'' \<and> map py_strip (py_split (CHR '','') (py_strip ''5000, abc'')) = [''5000'', ''abc'']
        \<and> (py_int ''5000'' = Inl (invalid_literal ''abc'') \<or> (py_int ''5000'' = Inr 5000 \<and> py_int ''abc'' = Inl (invalid_literal ''abc'')))"
    using h4 by blast
  note c4 = click_validation [of _ _ "''5000, abc''" _ "''5000''" "''abc''" "invalid_literal ''abc''" 5000, THEN conjunct2, THEN conjunct2,
      THEN conjunct2, THEN conjunct2, THEN conjunct2, THEN conjunct1, rule_format, OF h4']
  note c5 = click_validation [of _ _ "''5000, 300''" _ "''5000''" "''300''" _ 5000 300, THEN conjunct2, THEN conjunct2,
      THEN conjunct2, THEN conjunct2, THEN conjunct2, THEN conjunct2, rule_format, OF h5]
  show ?thesis using h1 h2 h3 h4 h5 c1 c2 c3 c4 c5 by blast
qed

lemma scroll_args:
  assumes "CHR '')'' \<notin> set t" "map py_strip (py_split (CHR '','') (py_strip t)) = ps" "py_strip t \<noteq> []"
  shows "parse_action (''Action: Scroll('' @ t @ '')'') =
     (if length ps \<noteq> 3 then
        Inl (ActionParseError (''Scroll requires 3 arguments (x, y, direction), got '' @ str_nat (length ps)))
      else
        (case py_int (ps ! 0) of
           Inl e \<Rightarrow> Inl (ActionParseError (''Invalid argument format: '' @ str_exn e))
         | Inr x \<Rightarrow>
        (case py_int (ps ! 1) of
           Inl e \<Rightarrow> Inl (ActionParseError (''Invalid argument format: '' @ str_exn e))
         | Inr y \<Rightarrow>
             (let direction = py_lower (py_strip_chars [CHR 0x27, CHR 0x22] (ps ! 2)) in
              if direction \<noteq> ''up'' \<and> direction \<noteq> ''down'' then
                Inl (ActionParseError (''Scroll direction must be 'up' or 'down', got '' @ [CHR 0x27] @ direction @ [CHR 0x27]))
              else Inr \<lparr>name = ''Scroll'',
                         args = [(''x'', IntV x), (''y'', IntV y), (''direction'', StrV direction)],
                         error = None\<rparr>))))"
  using assms
  by (auto simp: parse_Scroll parse_args_def takeWhile_no_closing Let_def
           split: sum.splits exn.splits dest: py_int_error)

text \<open>
  Claim C6: \<open>Action: Scroll(x, y, direction)\<close> needs exactly three comma-separated
  pieces; the first two must parse as integers and are not checked against any range; the
  third, without surrounding quotes and in lower case, must be \<open>up\<close> or \<open>down\<close>.
  \<open>Action: Scroll(1,2,UP)\<close> succeeds with direction \<open>up\<close>, \<open>Action: Scroll(1,2,left)\<close>
  fails with a diagnostic naming both \<open>up\<close> and \<open>down\<close>, and coordinates such as
  \<open>5000\<close> and \<open>-7\<close> are accepted.
\<close>

theorem scroll_validation:
  "(CHR '')'' \<notin> set t \<and> py_strip t \<noteq> []
        \<and> map py_strip (py_split (CHR '','') (py_strip t)) = ps \<and> length ps \<noteq> 3 \<longrightarrow>
        parse_action (''Action: Scroll('' @ t @ '')'')
          = Inl (ActionParseError (''Scroll requires 3 arguments (x, y, direction), got '' @ str_nat (length ps))))
   \<and> (CHR '')'' \<notin> set t \<and> map py_strip (py_split (CHR '','') (py_strip t)) = [p, q, d]
        \<and> (py_int p = Inl e \<or> (py_int p = Inr u \<and> py_int q = Inl e)) \<longrightarrow>
        parse_action (''Action: Scroll('' @ t @ '')'')
          = Inl (ActionParseError (''Invalid argument format: '' @ str_exn e)))
   \<and> (CHR '')'' \<notin> set t \<and> map py_strip (py_split (CHR '','') (py_strip t)) = [p, q, d]
        \<and> py_int p = Inr u \<and> py_int q = Inr v
        \<and> py_lower (py_strip_chars [CHR 0x27, CHR 0x22] d) = dir \<and> (dir = ''up'' \<or> dir = ''down'') \<longrightarrow>
        parse_action (''Action: Scroll('' @ t @ '')'')
          = Inr \<lparr>name = ''Scroll'', args = [(''x'', IntV u), (''y'', IntV v), (''direction'', StrV dir)],
                 error = None\<rparr>)
   \<and> (CHR '')'' \<notin> set t \<and> map py_strip (py_split (CHR '','') (py_strip t)) = [p, q, d]
        \<and> py_int p = Inr u \<and> py_int q = Inr v
        \<and> py_lower (py_strip_chars [CHR 0x27, CHR 0x22] d) = dir \<and> dir \<noteq> ''up'' \<and> dir \<noteq> ''down'' \<longrightarrow>
        parse_action (''Action: Scroll('' @ t @ '')'')
          = Inl (ActionParseError (''Scroll direction must be 'up' or 'down', got '' @ [CHR 0x27] @ dir @ [CHR 0x27])))
   \<and> parse_action ''Action: Scroll(1,2,UP)''
        = Inr \<lparr>name = ''Scroll'', args = [(''x'', IntV 1), (''y'', IntV 2), (''direction'', StrV ''up'')],
               error = None\<rparr>
   \<and> parse_action ''Action: Scroll(1,2,left)''
        = Inl (ActionParseError (''Scroll direction must be 'up' or 'down', got '' @ [CHR 0x27] @ ''left'' @ [CHR 0x27]))
   \<and> parse_action ''Action: Scroll(5000, -7, 'Down')''
        = Inr \<lparr>name = ''Scroll'', args = [(''x'', IntV 5000), (''y'', IntV (- 7)), (''direction'', StrV ''down'')],
               error = None\<rparr>"
proof (intro conjI impI)
  assume "CHR '')'' \<notin> set t \<and> py_strip t \<noteq> []
        \<and> map py_strip (py_split (CHR '','') (py_strip t)) = ps \<and> length ps \<noteq> 3"
  then show "parse_action (''Action: Scroll('' @ t @ '')'')
          = Inl (ActionParseError (''Scroll requires 3 arguments (x, y, direction), got '' @ str_nat (length ps)))"
    using scroll_args [of t ps] by simp
next
  assume a: "CHR '')'' \<notin> set t \<and> map py_strip (py_split (CHR '','') (py_strip t)) = [p, q, d]
        \<and> (py_int p = Inl e \<or> (py_int p = Inr u \<and> py_int q = Inl e))"
  then have "py_strip t \<noteq> []" by auto
  then show "parse_action (''Action: Scroll('' @ t @ '')'')
          = Inl (ActionParseError (''Invalid argument format: '' @ str_exn e))"
    using a scroll_args [of t "[p, q, d]"] by auto
next
  assume a: "CHR '')'' \<notin> set t \<and> map py_strip (py_split (CHR '','') (py_strip t)) = [p, q, d]
        \<and> py_int p = Inr u \<and> py_int q = Inr v
        \<and> py_lower (py_strip_chars [CHR 0x27, CHR 0x22] d) = dir \<and> (dir = ''up'' \<or> dir = ''down'')"
  then have "py_strip t \<noteq> []" by auto
  then show "parse_action (''Action: Scroll('' @ t @ '')'')
          = Inr \<lparr>name = ''Scroll'', args = [(''x'', IntV u), (''y'', IntV v), (''direction'', StrV dir)],
                 error = None\<rparr>"
    using a scroll_args [of t "[p, q, d]"] by auto
next
  assume a: "CHR '')'' \<notin> set t \<and> map py_strip (py_split (CHR '','') (py_strip t)) = [p, q, d]
        \<and> py_int p = Inr u \<and> py_int q = Inr v
        \<and> py_lower (py_strip_chars [CHR 0x27, CHR 0x22] d) = dir \<and> dir \<noteq> ''up'' \<and> dir \<noteq> ''down''"
  then have "py_strip t \<noteq> []" by auto
  then show "parse_action (''Action: Scroll('' @ t @ '')'')
          = Inl (ActionParseError (''Scroll direction must be 'up' or 'down', got '' @ [CHR 0x27] @ dir @ [CHR 0x27]))"
    using a scroll_args [of t "[p, q, d]"] by auto
next
  show "parse_action ''Action: Scroll(1,2,UP)''
        = Inr \<lparr>name = ''Scroll'', args = [(''x'', IntV 1), (''y'', IntV 2), (''direction'', StrV ''up'')],
               error = None\<rparr>"
    by code_simp
next
  show "parse_action ''Action: Scroll(1,2,left)''
        = Inl (ActionParseError (''Scroll direction must be 'up' or 'down', got '' @ [CHR 0x27] @ ''left'' @ [CHR 0x27]))"
    by code_simp
next
  show "parse_action ''Action: Scroll(5000, -7, 'Down')''
        = Inr \<lparr>name = ''Scroll'', args = [(''x'', IntV 5000), (''y'', IntV (- 7)), (''direction'', StrV ''down'')],
               error = None\<rparr>"
    by code_simp
qed

theorem scroll_validation_witness:
  "(CHR '')'' \<notin> set ''1,2'' \<and> py_strip ''1,2'' \<noteq> []
        \<and> map py_strip (py_split (CHR '','') (py_strip ''1,2'')) = [''1'', ''2''] \<and> length [''1'', ''2''] \<noteq> 3)
   \<and> parse_action (''Action: Scroll('' @ ''1,2'' @ '')'')
        = Inl (ActionParseError (''Scroll requires 3 arguments (x, y, direction), got '' @ str_nat (length [''1'', ''2''])))
   \<and> (CHR '')'' \<notin> set ''1,two,up'' \<and> map py_strip (py_split (CHR '','') (py_strip ''1,two,up'')) = [''1'', ''two'', ''up'']
        \<and> py_int ''1'' = Inr 1 \<and> py_int ''two'' = Inl (invalid_literal ''two''))
   \<and> parse_action (''Action: Scroll('' @ ''1,two,up'' @ '')'')
        = Inl (ActionParseError (''Invalid argument format: '' @ str_exn (invalid_literal ''two'')))
   \<and> (CHR '')'' \<notin> set ''2000, -5, UP'' \<and> map py_strip (py_split (CHR '','') (py_strip ''2000, -5, UP'')) = [''2000'', ''-5'', ''UP'']
        \<and> py_int ''2000'' = Inr 2000 \<and> py_int ''-5'' = Inr (- 5)
        \<and> py_lower (py_strip_chars [CHR 0x27, CHR 0x22] ''UP'') = ''up'' \<and> (''up'' = ''up'' \<or> ''up'' = ''down''))
   \<and> parse_action (''Action: Scroll('' @ ''2000, -5, UP'' @ '')'')
        = Inr \<lparr>name = ''Scroll'', args = [(''x'', IntV 2000), (''y'', IntV (- 5)), (''direction'', StrV ''up'')],
               error = None\<rparr>
   \<and> (CHR '')'' \<notin> set ''1,2,left'' \<and> map py_strip (py_split (CHR '','') (py_strip ''1,2,left'')) = [''1'', ''2'', ''left'']
        \<and> py_int ''1'' = Inr 1 \<and> py_int ''2'' = Inr 2
        \<and> py_lower (py_strip_chars [CHR 0x27, CHR 0x22] ''left'') = ''left'' \<and> ''left'' \<noteq> ''up'' \<and> ''left'' \<noteq> ''down'')
   \<and> parse_action (''Action: Scroll('' @ ''1,2,left'' @ '')'')
        = Inl (ActionParseError (''Scroll direction must be 'up' or 'down', got '' @ [CHR 0x27] @ ''left'' @ [CHR 0x27]))"
proof -
  have h1: "CHR '')'' \<notin> set ''1,2'' \<and> py_strip ''1,2'' \<noteq> []
        \<and> map py_strip (py_split (CHR '','') (py_strip ''1,2'')) = [''1'', ''2''] \<and> length [''1'', ''2''] \<noteq> 3"
    by code_simp
  have h2: "CHR '')'' \<notin> set ''1,two,up'' \<and> map py_strip (py_split (CHR '','') (py_strip ''1,two,up'')) = [''1'', ''two'', ''up'']
        \<and> py_int ''1'' = Inr 1 \<and> py_int ''two'' = Inl (invalid_literal ''two'')"
    by code_simp
  have h3: "CHR '')'' \<notin> set ''2000, -5, UP'' \<and> map py_strip (py_split (CHR '','') (py_strip ''2000, -5, UP'')) = [''2000'', ''-5'', ''UP'']
        \<and> py_int ''2000'' = Inr 2000 \<and> py_int ''-5'' = Inr (- 5)
        \<and> py_lower (py_strip_chars [CHR 0x27, CHR 0x22] ''UP'') = ''up'' \<and> (''up'' = ''up'' \<or> ''up'' = ''down'')"
    by code_simp
  have h4: "CHR '')'' \<notin> set ''1,2,left'' \<and> map py_strip (py_split (CHR '','') (py_strip ''1,2,left'')) = [''1'', ''2'', ''left'']
        \<and> py_int ''1'' = Inr 1 \<and> py_int ''2'' = Inr 2
        \<and> py_lower (py_strip_chars [CHR 0x27, CHR 0x22] ''left'') = ''left'' \<and> ''left'' \<noteq> ''up'' \<and> ''left'' \<noteq> ''down''"
    by code_simp
  have h2': "CHR '')'' \<notin> set ''1,two,up'' \<and> map py_strip (py_split (CHR '','') (py_strip ''1,two,up'')) = [''1'', ''two'', ''up'']
        \<and> (py_int ''1'' = Inl (invalid_literal ''two'') \<or> (py_int ''1'' = Inr 1 \<and> py_int ''two'' = Inl (invalid_literal ''two'')))"
    using h2 by blast
  note c1 = scroll_validation [of "''1,2''" "[''1'', ''2'']", THEN conjunct1, rule_format, OF h1]
  note c2 = scroll_validation [of "''1,two,up''" _ "''1''" "''two''" "''up''" "invalid_literal ''two''" 1,
      THEN conjunct2, THEN conjunct1, rule_format, OF h2']
  note c3 = scroll_validation [of "''2000, -5, UP''" _ "''2000''" "''-5''" "''UP''" _ 2000 "- 5" "''up''",
      THEN conjunct2, THEN conjunct2, THEN conjunct1, rule_format, OF h3]
  note c4 = scroll_validation [of "''1,2,left''" _ "''1''" "''2''" "''left''" _ 1 2 "''left''",
      THEN conjunct2, THEN conjunct2, THEN conjunct2, THEN conjunct1, rule_format, OF h4]
  show ?thesis using h1 h2 h3 h4 c1 c2 c3 c4 by blast
qed

lemma parse_action_bare:
  assumes "re_search action_match_at s = None" "re_search action_line_at s = Some nm"
  shows "parse_action s =
     (if nm = ''Wait'' \<or> nm = ''Finished'' then Inr \<lparr>name = nm, args = [], error = None\<rparr>
      else Inl (ActionParseError (''Action '' @ [CHR 0x27] @ nm @ [CHR 0x27]
                  @ '' requires arguments but none provided'')))"
  using assms by (simp add: parse_action_def Action_def)

lemma parse_action_none:
  assumes "re_search action_match_at s = None" "re_search action_line_at s = None"
  shows "parse_action s = Inl (ActionParseError
           ''No valid action found in response. Expected format: Action: Name(args)'')"
  using assms by (simp add: parse_action_def)

lemma no_token_no_match:
  "\<not> starts_with ''Action:'' u \<Longrightarrow> action_match_at u = None \<and> action_line_at u = None"
  by (simp add: action_match_at_def action_line_at_def)

lemma all_less_list_all: "(\<forall>j<n. P j) \<longleftrightarrow> list_all P [0..<n]"
  by (auto simp: list_all_iff)

lemma all_le_list_all: "(\<forall>j\<le>n. P j) \<longleftrightarrow> list_all P [0..<Suc n]"
  by (auto simp: list_all_iff simp del: upt_Suc)

lemma action_match_at_SomeD:
  "action_match_at u = Some (nm, a) \<Longrightarrow> nm \<noteq> [] \<and> list_all isword nm \<and> CHR '')'' \<notin> set a"
  by (auto simp: action_match_at_def Let_def list_all_iff split: if_splits dest: set_takeWhileD)

lemma parse_args_Click:
  "parse_args ''Click'' s =
     (if s = [] then Inl (ActionParseError ''Click requires coordinates: Click(x, y)'')
      else
        (let parts = map py_strip (py_split (CHR '','') s) in
         if length parts \<noteq> 2 then
           Inl (ActionParseError (''Click requires exactly 2 arguments (x, y), got '' @ str_nat (length parts)))
         else
           (case py_int (parts ! 0) of Inl e \<Rightarrow> Inl e | Inr x \<Rightarrow>
           (case py_int (parts ! 1) of Inl e \<Rightarrow> Inl e | Inr y \<Rightarrow>
              if \<not> (0 \<le> x \<and> x \<le> 1000 \<and> 0 \<le> y \<and> y \<le> 1000) then
                Inl (ActionParseError (''Coordinates must be 0-1000, got ('' @ py_str x @ '', '' @ py_str y @ '')''))
              else Inr \<lparr>name = ''Click'', args = [(''x'', IntV x), (''y'', IntV y)], error = None\<rparr>))))"
  by (simp add: parse_args_def)

lemma parse_args_Scroll:
  "parse_args ''Scroll'' s =
     (if s = [] then Inl (ActionParseError ''Scroll requires arguments: Scroll(x, y, direction)'')
      else
        (let parts = map py_strip (py_split (CHR '','') s) in
         if length parts \<noteq> 3 then
           Inl (ActionParseError (''Scroll requires 3 arguments (x, y, direction), got '' @ str_nat (length parts)))
         else
           (case py_int (parts ! 0) of Inl e \<Rightarrow> Inl e | Inr x \<Rightarrow>
           (case py_int (parts ! 1) of Inl e \<Rightarrow> Inl e | Inr y \<Rightarrow>
              (let direction = py_lower (py_strip_chars [CHR 0x27, CHR 0x22] (parts ! 2)) in
               if direction \<noteq> ''up'' \<and> direction \<noteq> ''down'' then
                 Inl (ActionParseError (''Scroll direction must be 'up' or 'down', got '' @ [CHR 0x27] @ direction @ [CHR 0x27]))
               else Inr \<lparr>name = ''Scroll'',
                          args = [(''x'', IntV x), (''y'', IntV y), (''direction'', StrV direction)],
                          error = None\<rparr>)))))"
  by (simp add: parse_args_def)

lemma parse_args_others:
  "parse_args ''Type'' s =
     (if s = [] then Inl (ActionParseError ''Type requires content: Type(text to type)'')
      else Inr \<lparr>name = ''Type'', args = [(''content'', StrV s)], error = None\<rparr>)"
  "parse_args ''Press'' s =
     (if s = [] then Inl (ActionParseError ''Press requires a key: Press(Enter)'')
      else Inr \<lparr>name = ''Press'', args = [(''key'', StrV s)], error = None\<rparr>)"
  "parse_args ''CallUser'' s =
     (if s = [] then Inl (ActionParseError ''CallUser requires a question: CallUser(your question here)'')
      else Inr \<lparr>name = ''CallUser'', args = [(''question'', StrV s)], error = None\<rparr>)"
  "parse_args ''Wait'' s = Inr \<lparr>name = ''Wait'', args = [], error = None\<rparr>"
  "parse_args ''Finished'' s = Inr \<lparr>name = ''Finished'', args = [], error = None\<rparr>"
  by (simp_all add: parse_args_def Action_def)

lemma parse_args_unknown:
  "nm \<notin> set [''Click'', ''Scroll'', ''Type'', ''Press'', ''CallUser'', ''Wait'', ''Finished'']
     \<Longrightarrow> parse_args nm s = Inl (ActionParseError (''Unknown action: '' @ nm))"
  by (simp add: parse_args_def)

lemma click_cases:
  "(\<exists>a. parse_args ''Click'' s = Inr a \<and> error a = None \<and> name a = ''Click'')
   \<or> (\<exists>m. parse_args ''Click'' s = Inl (ActionParseError m) \<and> m \<noteq> [])
   \<or> (\<exists>m. parse_args ''Click'' s = Inl (ValueError m))"
proof (cases "s = []")
  case True
  then show ?thesis by (simp add: parse_args_Click)
next
  case ne: False
  let ?ps = "map py_strip (py_split (CHR '','') s)"
  show ?thesis
  proof (cases "length ?ps \<noteq> 2")
    case True
    then show ?thesis using ne by (simp add: parse_args_Click Let_def)
  next
    case len: False
    show ?thesis
    proof (cases "py_int (?ps ! 0)")
      case (Inl e)
      then obtain m where "e = ValueError m" using py_int_error by blast
      then show ?thesis using ne len Inl by (simp add: parse_args_Click Let_def)
    next
      case x: (Inr x)
      show ?thesis
      proof (cases "py_int (?ps ! 1)")
        case (Inl e)
        then obtain m where "e = ValueError m" using py_int_error by blast
        then show ?thesis using ne len x Inl by (simp add: parse_args_Click Let_def)
      next
        case (Inr y)
        then show ?thesis using ne len x by (simp add: parse_args_Click Let_def)
      qed
    qed
  qed
qed

lemma scroll_cases:
  "(\<exists>a. parse_args ''Scroll'' s = Inr a \<and> error a = None \<and> name a = ''Scroll'')
   \<or> (\<exists>m. parse_args ''Scroll'' s = Inl (ActionParseError m) \<and> m \<noteq> [])
   \<or> (\<exists>m. parse_args ''Scroll'' s = Inl (ValueError m))"
proof (cases "s = []")
  case True
  then show ?thesis by (simp add: parse_args_Scroll)
next
  case ne: False
  let ?ps = "map py_strip (py_split (CHR '','') s)"
  show ?thesis
  proof (cases "length ?ps \<noteq> 3")
    case True
    then show ?thesis using ne by (simp add: parse_args_Scroll Let_def)
  next
    case len: False
    show ?thesis
    proof (cases "py_int (?ps ! 0)")
      case (Inl e)
      then obtain m where "e = ValueError m" using py_int_error by blast
      then show ?thesis using ne len Inl by (simp add: parse_args_Scroll Let_def)
    next
      case x: (Inr x)
      show ?thesis
      proof (cases "py_int (?ps ! 1)")
        case (Inl e)
        then obtain m where "e = ValueError m" using py_int_error by blast
        then show ?thesis using ne len x Inl by (simp add: parse_args_Scroll Let_def)
      next
        case (Inr y)
        then show ?thesis using ne len x by (simp add: parse_args_Scroll Let_def)
      qed
    qed
  qed
qed

lemma parse_args_cases:
  "(\<exists>a. parse_args nm s = Inr a \<and> error a = None
          \<and> name a \<in> set [''Click'', ''Scroll'', ''Type'', ''Press'', ''CallUser'', ''Wait'', ''Finished''])
   \<or> (\<exists>m. parse_args nm s = Inl (ActionParseError m) \<and> m \<noteq> [])
   \<or> (\<exists>m. parse_args nm s = Inl (ValueError m))"
proof -
  consider "nm = ''Click''" | "nm = ''Scroll''" | "nm = ''Type''" | "nm = ''Press''"
    | "nm = ''CallUser''" | "nm = ''Wait''" | "nm = ''Finished''"
    | "nm \<notin> set [''Click'', ''Scroll'', ''Type'', ''Press'', ''CallUser'', ''Wait'', ''Finished'']"
    by auto
  then show ?thesis
  proof cases
    case 1
    then show ?thesis using click_cases [of s] by auto
  next
    case 2
    then show ?thesis using scroll_cases [of s] by auto
  next
    case 3
    then show ?thesis by (simp add: parse_args_others)
  next
    case 4
    then show ?thesis by (simp add: parse_args_others)
  next
    case 5
    then show ?thesis by (simp add: parse_args_others)
  next
    case 6
    then show ?thesis by (simp add: parse_args_others)
  next
    case 7
    then show ?thesis by (simp add: parse_args_others)
  next
    case 8
    then show ?thesis by (simp add: parse_args_unknown)
  qed
qed

text \<open>
  Claim C4: for every response the parser ends either with an action (one of the seven
  names, no error attached) or with an \<open>ActionParseError\<close> carrying a non-empty
  diagnostic, never with another exception. When no parenthesised call matches anywhere
  and the first bare \<open>Action: Name\<close> names \<open>nm\<close>, the parse succeeds with empty arguments
  exactly for \<open>Wait\<close> and \<open>Finished\<close> and fails with the "requires arguments" diagnostic
  for every other name. When the text \<open>Action:\<close> occurs nowhere, the parse fails with the
  "No valid action found" diagnostic.
\<close>

theorem parse_action_outcomes:
  "((\<exists>a. parse_action s = Inr a \<and> error a = None
          \<and> name a \<in> set [''Click'', ''Scroll'', ''Type'', ''Press'', ''CallUser'', ''Wait'', ''Finished''])
     \<or> (\<exists>m. parse_action s = Inl (ActionParseError m) \<and> m \<noteq> []))
   \<and> ((\<forall>j\<le>length s. action_match_at (drop j s) = None)
        \<and> k \<le> length s \<and> action_line_at (drop k s) = Some nm
        \<and> (\<forall>j<k. action_line_at (drop j s) = None) \<longrightarrow>
        parse_action s =
          (if nm = ''Wait'' \<or> nm = ''Finished'' then Inr \<lparr>name = nm, args = [], error = None\<rparr>
           else Inl (ActionParseError (''Action '' @ [CHR 0x27] @ nm @ [CHR 0x27]
                       @ '' requires arguments but none provided''))))
   \<and> ((\<forall>j\<le>length s. \<not> starts_with ''Action:'' (drop j s)) \<longrightarrow>
        parse_action s = Inl (ActionParseError
          ''No valid action found in response. Expected format: Action: Name(args)''))"
proof (intro conjI impI)
  show "(\<exists>a. parse_action s = Inr a \<and> error a = None
          \<and> name a \<in> set [''Click'', ''Scroll'', ''Type'', ''Press'', ''CallUser'', ''Wait'', ''Finished''])
     \<or> (\<exists>m. parse_action s = Inl (ActionParseError m) \<and> m \<noteq> [])"
  proof (cases "re_search action_match_at s")
    case None
    then show ?thesis
      by (cases "re_search action_line_at s") (auto simp: parse_action_bare parse_action_none)
  next
    case (Some r)
    obtain nm g2 where r: "r = (nm, g2)" by (cases r)
    show ?thesis
      using parse_args_cases [of nm "py_strip g2"] parse_action_found [of s nm g2] Some r
      by auto
  qed
next
  assume a: "(\<forall>j\<le>length s. action_match_at (drop j s) = None)
        \<and> k \<le> length s \<and> action_line_at (drop k s) = Some nm
        \<and> (\<forall>j<k. action_line_at (drop j s) = None)"
  then have "re_search action_match_at s = None" by (simp add: re_search_None)
  moreover have "re_search action_line_at s = Some nm"
    using a by (intro re_search_first [of k]) simp_all
  ultimately show "parse_action s =
          (if nm = ''Wait'' \<or> nm = ''Finished'' then Inr \<lparr>name = nm, args = [], error = None\<rparr>
           else Inl (ActionParseError (''Action '' @ [CHR 0x27] @ nm @ [CHR 0x27]
                       @ '' requires arguments but none provided'')))"
    by (rule parse_action_bare)
next
  assume a: "\<forall>j\<le>length s. \<not> starts_with ''Action:'' (drop j s)"
  then have "\<forall>j\<le>length s. action_match_at (drop j s) = None \<and> action_line_at (drop j s) = None"
    using no_token_no_match by blast
  then have "re_search action_match_at s = None" "re_search action_line_at s = None"
    by (simp_all add: re_search_None)
  then show "parse_action s = Inl (ActionParseError
          ''No valid action found in response. Expected format: Action: Name(args)'')"
    by (rule parse_action_none)
qed

theorem parse_action_outcomes_witness:
  "(list_all (\<lambda>j. action_match_at (drop j ''Action: Click'') = None) [0..<Suc (length ''Action: Click'')]
        \<and> 0 \<le> length ''Action: Click'' \<and> action_line_at (drop 0 ''Action: Click'') = Some ''Click'')
   \<and> parse_action ''Action: Click''
        = Inl (ActionParseError (''Action '' @ [CHR 0x27] @ ''Click'' @ [CHR 0x27]
                       @ '' requires arguments but none provided''))
   \<and> (list_all (\<lambda>j. action_match_at (drop j ''So. Action: Wait'') = None) [0..<Suc (length ''So. Action: Wait'')]
        \<and> 4 \<le> length ''So. Action: Wait'' \<and> action_line_at (drop 4 ''So. Action: Wait'') = Some ''Wait''
        \<and> list_all (\<lambda>j. action_line_at (drop j ''So. Action: Wait'') = None) [0..<4])
   \<and> parse_action ''So. Action: Wait'' = Inr \<lparr>name = ''Wait'', args = [], error = None\<rparr>
   \<and> list_all (\<lambda>j. \<not> starts_with ''Action:'' (drop j ''no action here'')) [0..<Suc (length ''no action here'')]
   \<and> parse_action ''no action here'' = Inl (ActionParseError
          ''No valid action found in response. Expected format: Action: Name(args)'')"
proof -
  have g1: "list_all (\<lambda>j. action_match_at (drop j ''Action: Click'') = None) [0..<Suc (length ''Action: Click'')]
        \<and> 0 \<le> length ''Action: Click'' \<and> action_line_at (drop 0 ''Action: Click'') = Some ''Click''"
    by code_simp
  have g2: "list_all (\<lambda>j. action_match_at (drop j ''So. Action: Wait'') = None) [0..<Suc (length ''So. Action: Wait'')]
        \<and> 4 \<le> length ''So. Action: Wait'' \<and> action_line_at (drop 4 ''So. Action: Wait'') = Some ''Wait''
        \<and> list_all (\<lambda>j. action_line_at (drop j ''So. Action: Wait'') = None) [0..<4]"
    by code_simp
  have g3: "list_all (\<lambda>j. \<not> starts_with ''Action:'' (drop j ''no action here'')) [0..<Suc (length ''no action here'')]"
    by code_simp
  have h1: "(\<forall>j\<le>length ''Action: Click''. action_match_at (drop j ''Action: Click'') = None)
        \<and> 0 \<le> length ''Action: Click'' \<and> action_line_at (drop 0 ''Action: Click'') = Some ''Click''
        \<and> (\<forall>j<0. action_line_at (drop j ''Action: Click'') = None)"
    using g1 unfolding all_le_list_all by simp
  have h2: "(\<forall>j\<le>length ''So. Action: Wait''. action_match_at (drop j ''So. Action: Wait'') = None)
        \<and> 4 \<le> length ''So. Action: Wait'' \<and> action_line_at (drop 4 ''So. Action: Wait'') = Some ''Wait''
        \<and> (\<forall>j<4. action_line_at (drop j ''So. Action: Wait'') = None)"
    using g2 unfolding all_le_list_all all_less_list_all by blast
  have h3: "\<forall>j\<le>length ''no action here''. \<not> starts_with ''Action:'' (drop j ''no action here'')"
    using g3 unfolding all_le_list_all by blast
  have c1: "parse_action ''Action: Click''
        = Inl (ActionParseError (''Action '' @ [CHR 0x27] @ ''Click'' @ [CHR 0x27]
                       @ '' requires arguments but none provided''))"
    using parse_action_outcomes [of "''Action: Click''" 0 "''Click''", THEN conjunct2, THEN conjunct1, THEN mp, OF h1]
    by simp
  have c2: "parse_action ''So. Action: Wait'' = Inr \<lparr>name = ''Wait'', args = [], error = None\<rparr>"
    using parse_action_outcomes [of "''So. Action: Wait''" 4 "''Wait''", THEN conjunct2, THEN conjunct1, THEN mp, OF h2]
    by simp
  note c3 = parse_action_outcomes [of "''no action here''", THEN conjunct2, THEN conjunct2, THEN mp, OF h3]
  show ?thesis using g1 g2 g3 c1 c2 c3 by blast
qed

text \<open>
  Claim C10: the parser acts on the leftmost parenthesised call \<open>Action: Name(args)\<close>,
  wherever in the text it begins: the response is parsed exactly as that call alone would
  be, whatever stands before it (a bare \<open>Action: Name\<close> included) or after it (further
  calls included). The bare name is looked for only when no call matches anywhere.
\<close>

theorem first_call_decides:
  "(k \<le> length s \<and> action_match_at (drop k s) = Some (nm, a)
      \<and> (\<forall>j<k. action_match_at (drop j s) = None) \<longrightarrow>
      parse_action s = parse_action (''Action: '' @ nm @ ''('' @ a @ '')''))
   \<and> parse_action ''Action: Click\<newline>I mean Action: Wait() and then Action: Finished()''
       = Inr \<lparr>name = ''Wait'', args = [], error = None\<rparr>"
proof (intro conjI impI)
  assume a: "k \<le> length s \<and> action_match_at (drop k s) = Some (nm, a)
      \<and> (\<forall>j<k. action_match_at (drop j s) = None)"
  then have "re_search action_match_at s = Some (nm, a)"
    by (intro re_search_first [of k]) simp_all
  then have "parse_action s =
     (case parse_args nm (py_strip a) of
        Inl (ValueError m) \<Rightarrow> Inl (ActionParseError (''Invalid argument format: '' @ m))
      | r \<Rightarrow> r)"
    by (rule parse_action_found)
  moreover have "parse_action (''Action: '' @ nm @ ''('' @ a @ '')'') =
     (case parse_args nm (py_strip a) of
        Inl (ValueError m) \<Rightarrow> Inl (ActionParseError (''Invalid argument format: '' @ m))
      | r \<Rightarrow> r)"
  proof -
    have p: "nm \<noteq> []" "list_all isword nm" "CHR '')'' \<notin> set a"
      using action_match_at_SomeD [of "drop k s" nm a] a by simp_all
    show ?thesis
      by (simp only: parse_action_call [OF p(1,2)] takeWhile_no_closing [OF p(3)])
  qed
  ultimately show "parse_action s = parse_action (''Action: '' @ nm @ ''('' @ a @ '')'')" by simp
next
  show "parse_action ''Action: Click\<newline>I mean Action: Wait() and then Action: Finished()''
       = Inr \<lparr>name = ''Wait'', args = [], error = None\<rparr>"
    by code_simp
qed

theorem first_call_decides_witness:
  "(21 \<le> length ''Action: Click\<newline>I mean Action: Wait() and then Action: Finished()''
     \<and> action_match_at (drop 21 ''Action: Click\<newline>I mean Action: Wait() and then Action: Finished()'')
          = Some (''Wait'', [])
     \<and> list_all (\<lambda>j. action_match_at (drop j ''Action: Click\<newline>I mean Action: Wait() and then Action: Finished()'')
          = None) [0..<21])
   \<and> parse_action ''Action: Click\<newline>I mean Action: Wait() and then Action: Finished()''
       = parse_action (''Action: '' @ ''Wait'' @ ''('' @ [] @ '')'')"
proof -
  have g: "21 \<le> length ''Action: Click\<newline>I mean Action: Wait() and then Action: Finished()''
     \<and> action_match_at (drop 21 ''Action: Click\<newline>I mean Action: Wait() and then Action: Finished()'')
          = Some (''Wait'', [])
     \<and> list_all (\<lambda>j. action_match_at (drop j ''Action: Click\<newline>I mean Action: Wait() and then Action: Finished()'')
          = None) [0..<21]"
    by code_simp
  have h: "21 \<le> length ''Action: Click\<newline>I mean Action: Wait() and then Action: Finished()''
     \<and> action_match_at (drop 21 ''Action: Click\<newline>I mean Action: Wait() and then Action: Finished()'')
          = Some (''Wait'', [])
     \<and> (\<forall>j<21. action_match_at (drop j ''Action: Click\<newline>I mean Action: Wait() and then Action: Finished()'')
          = None)"
    using g unfolding all_less_list_all by blast
  show ?thesis
    using g first_call_decides [of 21 "''Action: Click\<newline>I mean Action: Wait() and then Action: Finished()''"
        "''Wait''" "[]", THEN conjunct1, THEN mp, OF h]
    by blast
qed

section \<open>The reasoning text of a reply\<close>

















end
